theory Spec2Isabelle
  imports Complex_Main
begin

section \<open>Python strings and values\<close>

text \<open>
  A Python \<open>str\<close> is modelled by a list of characters; text outside ASCII is the list of
  the bytes of its UTF-8 encoding, on which equality, concatenation, the emptiness test,
  splitting at a comma and the substring test agree with Python's on the \<open>str\<close>.

  The methods \<open>str.lower\<close>, \<open>str.upper\<close> and \<open>str.strip\<close> belong to the Python runtime,
  where they follow the Unicode character database (every cased letter is mapped, every
  Unicode white space is stripped). They are parameters of the model: each function that
  calls one of them takes the three methods as a record \<open>str_methods\<close>, and what is proved
  for every such record holds for the methods of the runtime.
\<close>

record str_methods =
  str_lower :: "string \<Rightarrow> string"
  str_upper :: "string \<Rightarrow> string"
  str_strip :: "string \<Rightarrow> string"

text \<open>
  On strings of ASCII characters the three methods are the following functions; the
  examples, whose strings are all ASCII, are evaluated with them.
\<close>

definition ascii_lower_char :: "char \<Rightarrow> char" where
  "ascii_lower_char c =
     (case map_of (zip ''ABCDEFGHIJKLMNOPQRSTUVWXYZ'' ''abcdefghijklmnopqrstuvwxyz'') c of
        Some d \<Rightarrow> d | None \<Rightarrow> c)"

definition ascii_upper_char :: "char \<Rightarrow> char" where
  "ascii_upper_char c =
     (case map_of (zip ''abcdefghijklmnopqrstuvwxyz'' ''ABCDEFGHIJKLMNOPQRSTUVWXYZ'') c of
        Some d \<Rightarrow> d | None \<Rightarrow> c)"

definition ascii_space :: "char \<Rightarrow> bool" where
  "ascii_space c = (let n = (of_char c :: nat) in (9 \<le> n \<and> n \<le> 13) \<or> (28 \<le> n \<and> n \<le> 32))"

definition ascii_methods :: str_methods where
  "ascii_methods =
     \<lparr>str_lower = map ascii_lower_char,
      str_upper = map ascii_upper_char,
      str_strip = (\<lambda>s. rev (dropWhile ascii_space (rev (dropWhile ascii_space s))))\<rparr>"

text \<open>\<open>split_on c s\<close> is \<open>s.split(c)\<close> for a one-character separator.\<close>

fun split_on :: "char \<Rightarrow> string \<Rightarrow> string list" where
  "split_on c [] = [[]]"
| "split_on c (x # xs) =
     (if x = c then [] # split_on c xs
      else (case split_on c xs of [] \<Rightarrow> [[x]] | w # ws \<Rightarrow> (x # w) # ws))"

text \<open>\<open>str_in n h\<close> is the substring test \<open>n in h\<close>.\<close>

fun str_in :: "string \<Rightarrow> string \<Rightarrow> bool" where
  "str_in n [] = (n = [])"
| "str_in n (h # hs) = (take (length n) (h # hs) = n \<or> str_in n hs)"

text \<open>Truthiness of \<open>str | None\<close>, and \<open>s or ""\<close>.\<close>

definition truthy_str :: "string option \<Rightarrow> bool" where
  "truthy_str s = (case s of None \<Rightarrow> False | Some t \<Rightarrow> t \<noteq> [])"

definition or_empty :: "string option \<Rightarrow> string" where
  "or_empty s = (case s of None \<Rightarrow> [] | Some t \<Rightarrow> t)"

text \<open>Decimal rendering of integers, as \<open>str(n)\<close> and f-strings produce it.\<close>

fun str_of_nat :: "nat \<Rightarrow> string" where
  "str_of_nat n =
     (if n < 10 then [''0123456789'' ! n]
      else str_of_nat (n div 10) @ [''0123456789'' ! (n mod 10)])"

definition str_of_int :: "int \<Rightarrow> string" where
  "str_of_int i = (if i < 0 then CHR ''-'' # str_of_nat (nat (- i)) else str_of_nat (nat i))"

datatype py_exception = ValueError string | TypeError string | OverflowError string

subsection \<open>Numbers and \<open>float()\<close>\<close>

text \<open>
  A Python float is a finite number, an infinity or NaN; \<open>Finite x\<close> is the double whose
  value is \<open>x\<close>. Comparing a float with an int is exact in Python: \<open>float_le_int f m\<close> is
  \<open>f <= m\<close>, false for NaN.
\<close>

datatype py_float = Finite real | PosInf | NegInf | NaN

definition float_le_int :: "py_float \<Rightarrow> int \<Rightarrow> bool" where
  "float_le_int f m =
     (case f of Finite x \<Rightarrow> x \<le> real_of_int m | NegInf \<Rightarrow> True | PosInf \<Rightarrow> False
      | NaN \<Rightarrow> False)"

text \<open>\<open>bit_length n\<close> is \<open>n.bit_length()\<close>.\<close>

fun bit_length :: "nat \<Rightarrow> nat" where
  "bit_length n = (if n = 0 then 0 else Suc (bit_length (n div 2)))"

declare bit_length.simps [simp del]

text \<open>
  \<open>float(i)\<close> for an int \<open>i\<close>: exact up to \<open>2 ^ 53\<close> in magnitude; a larger magnitude is
  rounded to 53 significant bits, a tie going to the even neighbour, and \<open>OverflowError\<close>
  is raised when the rounded magnitude reaches \<open>2 ^ 1024\<close>.
\<close>

definition int_to_float :: "int \<Rightarrow> py_exception + py_float" where
  "int_to_float i =
     (let a = nat \<bar>i\<bar> in
      if a \<le> 2 ^ 53 then Inr (Finite (real_of_int i))
      else
        let e = bit_length a - 53;
            q = a div 2 ^ e;
            r = a mod 2 ^ e;
            q' = (if 2 ^ e < 2 * r \<or> (2 * r = 2 ^ e \<and> odd q) then q + 1 else q)
        in
        if 2 ^ 1024 \<le> q' * 2 ^ e then
          Inl (OverflowError ''int too large to convert to float'')
        else Inr (Finite (real_of_int (sgn i * int (q' * 2 ^ e)))))"

text \<open>
  The value found in the \<open>coordinateUncertaintyInMeters\<close> field of a response (a JSON
  \<open>null\<close> is the absent value \<open>None\<close> of the record): a float, an int (\<open>True\<close> and
  \<open>False\<close> are the ints 1 and 0), a string, or a list or dict. A string is represented by
  what \<open>float()\<close> parses it to: \<open>PyStr (Some f)\<close> is a string that denotes the float
  \<open>f\<close>, \<open>PyStr None\<close> one on which \<open>float()\<close> raises \<open>ValueError\<close>. \<open>float_of v\<close> is
  \<open>float(v)\<close>.
\<close>

datatype py_value = PyFloat py_float | PyInt int | PyStr "py_float option" | PyOther

definition float_of :: "py_value \<Rightarrow> py_exception + py_float" where
  "float_of v =
     (case v of
        PyFloat f \<Rightarrow> Inr f
      | PyInt i \<Rightarrow> int_to_float i
      | PyStr None \<Rightarrow> Inl (ValueError ''could not convert string to float'')
      | PyStr (Some f) \<Rightarrow> Inr f
      | PyOther \<Rightarrow> Inl (TypeError ''float() argument must be a string or a real number''))"

section \<open>utils.py\<close>

text \<open>
  The validators receive integers (the \<open>isinstance\<close> tests of the source pass);
  \<open>current_year\<close> is \<open>datetime.now().year\<close>.
\<close>

definition validate_year :: "int \<Rightarrow> int \<Rightarrow> string \<Rightarrow> py_exception + int" where
  "validate_year current_year year field_name =
     (if year < 1700 then
        Inl (ValueError (field_name @ '' must be >= 1700, got '' @ str_of_int year))
      else if year > current_year + 1 then
        Inl (ValueError (field_name @ '' cannot be in the future (max: ''
               @ str_of_int current_year @ ''), got '' @ str_of_int year))
      else Inr year)"

definition validate_positive_int :: "int \<Rightarrow> string \<Rightarrow> bool \<Rightarrow> py_exception + int" where
  "validate_positive_int val field_name allow_zero =
     (let min_val = (if allow_zero then 0 else 1) in
      if val < min_val then
        Inl (ValueError (field_name @ '' must be >= '' @ str_of_int min_val
               @ '', got '' @ str_of_int val))
      else Inr val)"

datatype str_items = ItemsNone | ItemsStr string | ItemsList "string list"

definition clean_string_list :: "str_methods \<Rightarrow> str_items \<Rightarrow> string list" where
  "clean_string_list py items =
     (case items of
        ItemsNone \<Rightarrow> []
      | ItemsStr s \<Rightarrow> map (\<lambda>item. str_lower py (str_strip py item))
                       (filter (\<lambda>item. item \<noteq> [] \<and> str_strip py item \<noteq> [])
                          (split_on CHR '','' s))
      | ItemsList l \<Rightarrow> map (\<lambda>item. str_lower py (str_strip py item))
                       (filter (\<lambda>item. item \<noteq> [] \<and> str_strip py item \<noteq> []) l))"

section \<open>api.py: the record types\<close>

record occurrence_record =
  key :: int
  year :: "int option"
  event_date :: "string option"
  latitude :: "real option"
  longitude :: "real option"
  coordinate_uncertainty :: "py_value option"
  elevation :: "real option"
  locality :: "string option"
  rec_genus :: "string option"
  species :: "string option"
  scientific_name :: "string option"
  specific_epithet :: "string option"
  institution_code :: "string option"
  catalog_number :: "string option"
  recorded_by :: "string option"
  country :: "string option"
  state_province :: "string option"
  rec_basis_of_record :: "string option"

section \<open>filters.py\<close>

record filter_config =
  genus :: "string option"
  species_list :: "string list"
  family :: "string option"
  year_start :: int
  year_end :: "int option"
  uncertainty_max :: int
  require_year :: bool
  require_elevation :: bool
  keep_unknown_uncertainty :: bool
  countries :: "string list"
  institutions :: "string list"
  basis_of_record :: "string list"
  deduplicate :: bool

text \<open>
  \<open>FilterConfig.__post_init__\<close>; \<open>now\<close> is \<open>datetime.now().year\<close>. The result is
  the configuration as the constructor leaves it, or the exception it raises.
\<close>

definition FilterConfig_post_init ::
  "str_methods \<Rightarrow> int \<Rightarrow> filter_config \<Rightarrow> py_exception + filter_config" where
  "FilterConfig_post_init py now self =
     (if \<not> truthy_str (genus self) \<and> \<not> truthy_str (family self) then
        Inl (ValueError ''Either genus or family must be specified'')
      else
        case (if year_start self \<noteq> 0 then validate_year now (year_start self) ''year_start''
              else Inr (year_start self)) of
          Inl e \<Rightarrow> Inl e
        | Inr ys \<Rightarrow>
           (case (case year_end self of
                    None \<Rightarrow> Inr now
                  | Some ye \<Rightarrow> if ye \<noteq> 0 then validate_year now ye ''year_end'' else Inr now) of
              Inl e \<Rightarrow> Inl e
            | Inr ye \<Rightarrow>
               if ys > ye then
                 Inl (ValueError (''year_start ('' @ str_of_int ys @ '') cannot be after ''
                        @ ''year_end ('' @ str_of_int ye @ '')''))
               else
                 (case validate_positive_int (uncertainty_max self) ''uncertainty_max'' True of
                    Inl e \<Rightarrow> Inl e
                  | Inr um \<Rightarrow>
                     Inr (self\<lparr>year_start := ys, year_end := Some ye, uncertainty_max := um,
                           species_list := clean_string_list py (ItemsList (species_list self)),
                           countries := map (str_upper py)
                                          (clean_string_list py (ItemsList (countries self))),
                           institutions :=
                             clean_string_list py (ItemsList (institutions self))\<rparr>))))"

text \<open>The dataclass defaults of \<open>FilterConfig\<close>, before \<open>__post_init__\<close> runs.\<close>

definition FilterConfig_defaults :: filter_config where
  "FilterConfig_defaults =
     \<lparr>genus = None, species_list = [], family = None, year_start = 1800, year_end = None,
      uncertainty_max = 1000, require_year = True, require_elevation = True,
      keep_unknown_uncertainty = True, countries = [], institutions = [],
      basis_of_record = [''PRESERVED_SPECIMEN''], deduplicate = True\<rparr>"

record filter_result =
  keep :: bool
  reason :: "string option"
  uncertainty_status :: string

definition FilterResult :: "bool \<Rightarrow> string option \<Rightarrow> string \<Rightarrow> filter_result" where
  "FilterResult k rsn us = \<lparr>keep = k, reason = rsn, uncertainty_status = us\<rparr>"

record record_filter =
  config :: filter_config
  seen_keys :: "int set"
  species_set :: "string set"

definition RecordFilter_init :: "filter_config \<Rightarrow> record_filter" where
  "RecordFilter_init cfg = \<lparr>config = cfg, seen_keys = {}, species_set = set (species_list cfg)\<rparr>"

text \<open>
  \<open>RecordFilter._check_uncertainty\<close>: the status, or the exception that leaves the
  method. The \<open>except\<close> clause catches \<open>TypeError\<close> and \<open>ValueError\<close> only, so the
  \<open>OverflowError\<close> of \<open>float()\<close> on a very large int is raised to the caller.
\<close>

definition check_uncertainty :: "record_filter \<Rightarrow> occurrence_record \<Rightarrow> py_exception + string" where
  "check_uncertainty self r =
     (case coordinate_uncertainty r of
        None \<Rightarrow> Inr ''unknown''
      | Some unc \<Rightarrow>
         (case float_of unc of
            Inr unc_value \<Rightarrow>
              if float_le_int unc_value (uncertainty_max (config self)) then Inr ''known''
              else Inr ''exceeded''
          | Inl (TypeError m) \<Rightarrow> Inr ''unknown''
          | Inl (ValueError m) \<Rightarrow> Inr ''unknown''
          | Inl (OverflowError m) \<Rightarrow> Inl (OverflowError m)))"

definition matches_species :: "str_methods \<Rightarrow> record_filter \<Rightarrow> occurrence_record \<Rightarrow> bool" where
  "matches_species py self r =
     (let epithet = str_lower py (or_empty (specific_epithet r)) in
      if epithet \<in> species_set self then True
      else
        let sci_name = str_lower py (or_empty (scientific_name r)) in
        (\<exists>sp \<in> species_set self. str_in sp sci_name))"

text \<open>
  \<open>RecordFilter.apply\<close>: the result, or the exception raised, and the filter with its
  updated set of seen keys (the key is added before the later checks run, so it stays
  added when one of them raises). The optional arguments of \<open>FilterResult\<close> take their
  defaults (\<open>reason=None\<close>, \<open>uncertainty_status="known"\<close>) where the source omits them.
\<close>

definition RecordFilter_apply ::
  "str_methods \<Rightarrow> record_filter \<Rightarrow> occurrence_record
     \<Rightarrow> (py_exception + filter_result) \<times> record_filter" where
  "RecordFilter_apply py self r =
     (if deduplicate (config self) \<and> key r \<in> seen_keys self then
        (Inr (FilterResult False (Some ''duplicate'') ''known''), self)
      else
        let self' = (if deduplicate (config self)
                     then self\<lparr>seen_keys := insert (key r) (seen_keys self)\<rparr> else self);
            cfg = config self'
        in
        (if require_year cfg \<and> year r = None then
           Inr (FilterResult False (Some ''missing_year'') ''known'')
         else if year r \<noteq> None \<and> the (year r) < year_start cfg then
           Inr (FilterResult False (Some ''year_too_old'') ''known'')
         else if year r \<noteq> None \<and>
                 (case year_end cfg of None \<Rightarrow> False
                  | Some ye \<Rightarrow> ye \<noteq> 0 \<and> the (year r) > ye) then
           Inr (FilterResult False (Some ''year_too_new'') ''known'')
         else if require_elevation cfg \<and> elevation r = None then
           Inr (FilterResult False (Some ''missing_elevation'') ''known'')
         else
           case check_uncertainty self' r of
             Inl e \<Rightarrow> Inl e
           | Inr unc_status \<Rightarrow>
               if unc_status = ''exceeded'' then
                 Inr (FilterResult False (Some ''uncertainty_exceeded'') unc_status)
               else if unc_status = ''unknown'' \<and> \<not> keep_unknown_uncertainty cfg then
                 Inr (FilterResult False (Some ''uncertainty_unknown'') unc_status)
               else if species_set self' \<noteq> {} \<and> \<not> matches_species py self' r then
                 Inr (FilterResult False (Some ''species_not_matched'') ''known'')
               else if countries cfg \<noteq> [] \<and>
                       \<not> (\<exists>c \<in> set (countries cfg).
                            str_in c (str_upper py (or_empty (country r)))) then
                 Inr (FilterResult False (Some ''country_not_matched'') ''known'')
               else if institutions cfg \<noteq> [] \<and>
                       \<not> (\<exists>i \<in> set (institutions cfg).
                            str_in i (str_lower py (or_empty (institution_code r)))) then
                 Inr (FilterResult False (Some ''institution_not_matched'') ''known'')
               else Inr (FilterResult True None unc_status),
         self'))"

definition reset :: "record_filter \<Rightarrow> record_filter" where
  "reset self = self\<lparr>seen_keys := {}\<rparr>"

definition seen_count :: "record_filter \<Rightarrow> nat" where
  "seen_count self = card (seen_keys self)"

text \<open>
  What an outcome of \<open>apply\<close> says: \<open>is_kept\<close> holds of a returned result with
  \<open>keep\<close> true, \<open>reason_of\<close> is the reason code of a returned result, or the exception
  raised.
\<close>

definition is_kept :: "py_exception + filter_result \<Rightarrow> bool" where
  "is_kept out = (case out of Inl e \<Rightarrow> False | Inr result \<Rightarrow> keep result)"

definition reason_of :: "py_exception + filter_result \<Rightarrow> py_exception + string option" where
  "reason_of out = (case out of Inl e \<Rightarrow> Inl e | Inr result \<Rightarrow> Inr (reason result))"

subsection \<open>\<open>filter_records\<close>\<close>

text \<open>
  The statistics dictionary, as an association list in insertion order. \<open>incr k\<close> is
  \<open>stats[k] += 1\<close> for a key that is present (the source only increments such keys).
  An exception raised by \<open>apply\<close> leaves \<open>filter_records\<close>.
\<close>

type_synonym stats = "(string \<times> int) list"

definition initial_stats :: stats where
  "initial_stats =
     [(''total'', 0), (''kept'', 0), (''duplicate'', 0), (''missing_year'', 0),
      (''year_too_old'', 0), (''year_too_new'', 0), (''missing_elevation'', 0),
      (''uncertainty_exceeded'', 0), (''uncertainty_unknown_kept'', 0),
      (''uncertainty_unknown_dropped'', 0), (''species_not_matched'', 0),
      (''country_not_matched'', 0), (''institution_not_matched'', 0)]"

definition incr :: "string \<Rightarrow> stats \<Rightarrow> stats" where
  "incr k st = map (\<lambda>(k', v). if k' = k then (k', v + 1) else (k', v)) st"

definition has_key :: "string \<Rightarrow> stats \<Rightarrow> bool" where
  "has_key k st = (k \<in> fst ` set st)"

fun filter_loop ::
  "str_methods \<Rightarrow> record_filter \<Rightarrow> occurrence_record list \<Rightarrow> occurrence_record list \<times> stats
     \<Rightarrow> py_exception + occurrence_record list \<times> stats" where
  "filter_loop py rf [] acc = Inr acc"
| "filter_loop py rf (r # rs) (filtered, st) =
     (let st1 = incr ''total'' st in
      case RecordFilter_apply py rf r of
        (Inl e, rf') \<Rightarrow> Inl e
      | (Inr result, rf') \<Rightarrow>
          if keep result then
            filter_loop py rf' rs
              (filtered @ [r],
               let st2 = incr ''kept'' st1 in
               if uncertainty_status result = ''unknown''
               then incr ''uncertainty_unknown_kept'' st2 else st2)
          else
            let rsn = (case reason result of None \<Rightarrow> ''other''
                       | Some s \<Rightarrow> if s = [] then ''other'' else s);
                st2 = (if has_key rsn st1 then incr rsn st1 else st1);
                st3 = (if rsn = ''uncertainty_unknown''
                       then incr ''uncertainty_unknown_dropped'' st2 else st2)
            in filter_loop py rf' rs (filtered, st3))"

definition filter_records ::
  "str_methods \<Rightarrow> occurrence_record list \<Rightarrow> filter_config
     \<Rightarrow> py_exception + occurrence_record list \<times> stats" where
  "filter_records py records cfg =
     filter_loop py (RecordFilter_init cfg) records ([], initial_stats)"

section \<open>api.py: the client\<close>

datatype gbif_error =
    GBIFError string
  | TaxonNotFoundError string
  | RateLimitError string
  | APIError string

definition GBIF_API_BASE :: string where
  "GBIF_API_BASE = ''https://api.gbif.org/v1/''"

definition SPECIES_MATCH_ENDPOINT :: string where
  "SPECIES_MATCH_ENDPOINT = ''species/match''"

definition OCCURRENCE_SEARCH_ENDPOINT :: string where
  "OCCURRENCE_SEARCH_ENDPOINT = ''occurrence/search''"

definition DEFAULT_PAGE_SIZE :: int where
  "DEFAULT_PAGE_SIZE = 300"

definition MAX_OFFSET :: int where
  "MAX_OFFSET = 100000"

record taxon_match =
  usage_key :: int
  tm_scientific_name :: string
  canonical_name :: string
  rank :: string
  status :: string
  confidence :: int
  match_type :: string
  kingdom :: "string option"
  tm_family :: "string option"
  tm_genus :: "string option"

text \<open>
  A JSON object of the API, restricted to the keys the client reads; a key that is absent
  is \<open>None\<close>. An item of \<open>results\<close> is modelled by the \<open>OccurrenceRecord\<close> that
  \<open>OccurrenceRecord.from_api_response\<close> builds from it (each field is read with
  \<open>.get\<close> from the key of the same meaning; a missing \<open>key\<close> gives 0, any other missing
  key gives \<open>None\<close>).
\<close>

record api_json =
  j_usageKey :: "int option"
  j_scientificName :: "string option"
  j_canonicalName :: "string option"
  j_rank :: "string option"
  j_status :: "string option"
  j_confidence :: "int option"
  j_matchType :: "string option"
  j_kingdom :: "string option"
  j_family :: "string option"
  j_genus :: "string option"
  j_count :: "int option"
  j_results :: "occurrence_record list option"
  j_endOfRecords :: "bool option"

definition get_or :: "'a option \<Rightarrow> 'a \<Rightarrow> 'a" where
  "get_or v d = (case v of None \<Rightarrow> d | Some x \<Rightarrow> x)"

definition TaxonMatch_from_api_response :: "api_json \<Rightarrow> taxon_match" where
  "TaxonMatch_from_api_response data =
     \<lparr>usage_key = get_or (j_usageKey data) 0,
      tm_scientific_name = get_or (j_scientificName data) '''',
      canonical_name = get_or (j_canonicalName data) '''',
      rank = get_or (j_rank data) '''',
      status = get_or (j_status data) '''',
      confidence = get_or (j_confidence data) 0,
      match_type = get_or (j_matchType data) ''NONE'',
      kingdom = j_kingdom data,
      tm_family = j_family data,
      tm_genus = j_genus data\<rparr>"

text \<open>The query parameters: the dictionary \<open>params\<close>, with the keys the client sets.\<close>

datatype basis = BasisStr string | BasisList "string list"

definition truthy_basis :: "basis \<Rightarrow> bool" where
  "truthy_basis b = (case b of BasisStr s \<Rightarrow> s \<noteq> [] | BasisList l \<Rightarrow> l \<noteq> [])"

record params =
  p_name :: "string option"
  p_kingdom :: "string option"
  p_class :: "string option"
  p_taxonKey :: "int option"
  p_hasCoordinate :: "string option"
  p_limit :: "int option"
  p_offset :: "int option"
  p_year :: "int option"
  p_basisOfRecord :: "basis option"
  p_country :: "string option"

definition no_params :: params where
  "no_params =
     \<lparr>p_name = None, p_kingdom = None, p_class = None, p_taxonKey = None,
      p_hasCoordinate = None, p_limit = None, p_offset = None, p_year = None,
      p_basisOfRecord = None, p_country = None\<rparr>"

definition str_lower_bool :: "bool \<Rightarrow> string" where
  "str_lower_bool b = (if b then ''true'' else ''false'')"

text \<open>
  What \<open>session.get\<close> followed by \<open>raise_for_status\<close> and \<open>response.json()\<close> can do:
  answer with a status code and a JSON body, or raise one of the exceptions of the
  \<open>requests\<close> library that \<open>_make_request\<close> catches (the string is the library's
  message). The session, with its retries, is outside the repository: it is a parameter,
  a function of a state \<open>'w\<close> of the outside world.
\<close>

datatype http_outcome =
    HttpResponse int api_json
  | HttpConnectionError string
  | HttpTimeout string
  | HttpRequestException string

type_synonym 'w session = "'w \<Rightarrow> string \<Rightarrow> params \<Rightarrow> http_outcome \<times> 'w"

definition make_request ::
  "'w session \<Rightarrow> 'w \<Rightarrow> string \<Rightarrow> params \<Rightarrow> (gbif_error + api_json) \<times> 'w" where
  "make_request session_get w endpoint ps =
     (case session_get w (GBIF_API_BASE @ endpoint) ps of
        (HttpResponse status_code body, w') \<Rightarrow>
          (if status_code = 429 then
             Inl (RateLimitError ''GBIF rate limit exceeded. Please wait and retry.'')
           else if 400 \<le> status_code \<and> status_code < 600 then
             Inl (APIError (''HTTP error: '' @ str_of_int status_code))
           else Inr body, w')
      | (HttpConnectionError m, w') \<Rightarrow> (Inl (APIError (''Connection error: '' @ m)), w')
      | (HttpTimeout m, w') \<Rightarrow> (Inl (APIError (''Request timeout: '' @ m)), w')
      | (HttpRequestException m, w') \<Rightarrow> (Inl (APIError (''Request failed: '' @ m)), w'))"

record client =
  timeout :: "int \<times> int"
  max_retries :: int
  page_size :: int

definition GBIFClient_init :: "int \<times> int \<Rightarrow> int \<Rightarrow> int \<Rightarrow> client" where
  "GBIFClient_init tmo retries psize =
     \<lparr>timeout = tmo, max_retries = retries, page_size = min psize 300\<rparr>"

definition default_client :: client where
  "default_client = GBIFClient_init (10, 30) 3 DEFAULT_PAGE_SIZE"

text \<open>The calls of the logger, by the message they format.\<close>

datatype log_event =
    MatchingTaxon string
  | MatchedTaxon string string string int
  | EstimatedTotal int
  | DownloadStopped
  | ProcessingYear int
  | ErrorFetchingYear int gbif_error
  | YearOffsetLimit int
  | DownloadedUnique nat

subsection \<open>\<open>match_taxon\<close>\<close>

definition quoted :: "string \<Rightarrow> string" where
  "quoted s = CHR 0x27 # s @ [CHR 0x27]"

text \<open>
  \<open>match_taxon\<close> returns the match or the exception it raises, the state of the world
  after its request, and what it logged. The names are compared after \<open>str.lower\<close>, the
  method of the runtime (\<open>str_lower py\<close>).
\<close>

definition taxon_params :: "string \<Rightarrow> string \<Rightarrow> string option \<Rightarrow> params" where
  "taxon_params name kingdom_name class_name =
     (let ps = no_params\<lparr>p_name := Some name, p_kingdom := Some kingdom_name\<rparr>
      in if truthy_str class_name then ps\<lparr>p_class := class_name\<rparr> else ps)"

definition match_taxon ::
  "str_methods \<Rightarrow> 'w session \<Rightarrow> 'w \<Rightarrow> string \<Rightarrow> string option \<Rightarrow> string
     \<Rightarrow> string option \<Rightarrow> bool \<Rightarrow> (gbif_error + taxon_match) \<times> 'w \<times> log_event list" where
  "match_taxon py session_get w name rnk kingdom_name class_name strict =
     (case make_request session_get w SPECIES_MATCH_ENDPOINT
             (taxon_params name kingdom_name class_name) of
        (Inl e, w') \<Rightarrow> (Inl e, w', [MatchingTaxon name])
      | (Inr data, w') \<Rightarrow>
         (let m = TaxonMatch_from_api_response data in
          if match_type m = ''NONE'' then
            (Inl (TaxonNotFoundError (''Taxon '' @ quoted name @ '' not found in GBIF.'')),
             w', [MatchingTaxon name])
          else if strict \<and> truthy_str rnk \<and> rank m \<noteq> or_empty rnk then
            (Inl (TaxonNotFoundError
                    (quoted name @ '' matched as '' @ rank m @ '' ('' @ canonical_name m
                       @ ''), but expected '' @ or_empty rnk
                       @ ''. Please check the spelling.'')),
             w', [MatchingTaxon name])
          else if strict \<and> truthy_str rnk \<and> str_lower py (canonical_name m) \<noteq> str_lower py name then
            (Inl (TaxonNotFoundError
                    (quoted name @ '' matched to '' @ quoted (canonical_name m) @ '' (''
                       @ rank m @ ''). This may not be what you intended. Please verify.'')),
             w', [MatchingTaxon name])
          else
            (Inr m, w',
             [MatchingTaxon name,
              MatchedTaxon name (canonical_name m) (rank m) (usage_key m)])))"

subsection \<open>\<open>count_occurrences\<close>\<close>

definition truthy_int :: "int option \<Rightarrow> bool" where
  "truthy_int v = (case v of None \<Rightarrow> False | Some i \<Rightarrow> i \<noteq> 0)"

definition count_occurrences ::
  "'w session \<Rightarrow> 'w \<Rightarrow> int \<Rightarrow> basis \<Rightarrow> bool \<Rightarrow> int option \<Rightarrow> string option
     \<Rightarrow> (gbif_error + int) \<times> 'w" where
  "count_occurrences session_get w taxon_key basis_of_rec has_coordinate yr cntry =
     (let ps0 = no_params\<lparr>p_taxonKey := Some taxon_key,
                          p_hasCoordinate := Some (str_lower_bool has_coordinate),
                          p_limit := Some 0\<rparr>;
          ps1 = (if truthy_basis basis_of_rec then ps0\<lparr>p_basisOfRecord := Some basis_of_rec\<rparr>
                 else ps0);
          ps2 = (if truthy_int yr then ps1\<lparr>p_year := yr\<rparr> else ps1);
          ps3 = (if truthy_str cntry then ps2\<lparr>p_country := cntry\<rparr> else ps2)
      in
      case make_request session_get w OCCURRENCE_SEARCH_ENDPOINT ps3 of
        (Inl e, w') \<Rightarrow> (Inl e, w')
      | (Inr data, w') \<Rightarrow> (Inr (get_or (j_count data) 0), w'))"

subsection \<open>\<open>iter_occurrences_by_year\<close>\<close>

text \<open>
  The generator is modelled by what it has done once it is exhausted: the records it
  yielded, in order, the local variables \<open>seen_keys\<close> and \<open>count\<close>, what it logged, the
  calls of the progress callback, and the state of the world. Its result is this state
  together with the exception that ended it, if one did.
\<close>

record 'w fetch_state =
  world :: 'w
  yielded :: "occurrence_record list"
  seen :: "int set"
  count :: nat
  logged :: "log_event list"
  progress :: "(nat \<times> int \<times> int) list"

text \<open>
  \<open>stop_check\<close> is an optional callable; polling it may change the world.
  \<open>poll\<close> is \<open>stop_check and stop_check()\<close>.
\<close>

type_synonym 'w stop_check = "('w \<Rightarrow> bool \<times> 'w) option"

definition poll :: "'w stop_check \<Rightarrow> 'w fetch_state \<Rightarrow> bool \<times> 'w fetch_state" where
  "poll stop_check st =
     (case stop_check of
        None \<Rightarrow> (False, st)
      | Some f \<Rightarrow> (case f (world st) of (b, w') \<Rightarrow> (b, st\<lparr>world := w'\<rparr>)))"

text \<open>
  The loop over the items of one page. \<open>has_callback\<close> says whether a progress callback
  was passed; the callback only observes.
\<close>

fun yield_results ::
  "bool \<Rightarrow> int \<Rightarrow> int \<Rightarrow> occurrence_record list \<Rightarrow> 'w fetch_state \<Rightarrow> 'w fetch_state" where
  "yield_results has_callback total_estimate yr [] st = st"
| "yield_results has_callback total_estimate yr (item # items) st =
     (if key item \<in> seen st then yield_results has_callback total_estimate yr items st
      else
        yield_results has_callback total_estimate yr items
          (st\<lparr>seen := insert (key item) (seen st),
              yielded := yielded st @ [item],
              count := count st + 1,
              progress := (if has_callback
                           then progress st @ [(count st + 1, total_estimate, yr)]
                           else progress st)\<rparr>))"

text \<open>
  The parameters of the search requests of one year; \<open>params["offset"]\<close> is the only
  entry that changes afterwards.
\<close>

definition year_params ::
  "client \<Rightarrow> int \<Rightarrow> bool \<Rightarrow> basis \<Rightarrow> string option \<Rightarrow> int \<Rightarrow> params" where
  "year_params self taxon_key has_coordinate basis_of_rec cntry yr =
     (let ps0 = no_params\<lparr>p_taxonKey := Some taxon_key,
                          p_hasCoordinate := Some (str_lower_bool has_coordinate),
                          p_year := Some yr,
                          p_limit := Some (page_size self),
                          p_offset := Some 0\<rparr>;
          ps1 = (if truthy_basis basis_of_rec then ps0\<lparr>p_basisOfRecord := Some basis_of_rec\<rparr>
                 else ps0)
      in if truthy_str cntry then ps1\<lparr>p_country := cntry\<rparr> else ps1)"

text \<open>
  The \<open>while True\<close> loop over the pages of one year, entered with the current offset.
  It need not end (a page size of zero repeats the same request for ever), so it is a
  partial function: \<open>None\<close> is a loop that does not return.
\<close>

partial_function (option) page_loop ::
  "'w session \<Rightarrow> client \<Rightarrow> 'w stop_check \<Rightarrow> bool \<Rightarrow> int \<Rightarrow> int \<Rightarrow> params \<Rightarrow> int
     \<Rightarrow> 'w fetch_state \<Rightarrow> (gbif_error option \<times> 'w fetch_state) option" where
  "page_loop session_get self stop_check has_callback total_estimate yr ps offset st =
     (case poll stop_check st of
        (stop, st1) \<Rightarrow>
          if stop then Some (None, st1)
          else
            case make_request session_get (world st1) OCCURRENCE_SEARCH_ENDPOINT
                   (ps\<lparr>p_offset := Some offset\<rparr>) of
              (Inl e, w') \<Rightarrow>
                (case e of
                   APIError m \<Rightarrow>
                     Some (None, st1\<lparr>world := w',
                                      logged := logged st1 @ [ErrorFetchingYear yr e]\<rparr>)
                 | _ \<Rightarrow> Some (Some e, st1\<lparr>world := w'\<rparr>))
            | (Inr data, w') \<Rightarrow>
                (let results = get_or (j_results data) [];
                     st2 = st1\<lparr>world := w'\<rparr>
                 in
                 if results = [] then Some (None, st2)
                 else
                   let st3 = yield_results has_callback total_estimate yr results st2 in
                   if get_or (j_endOfRecords data) False
                      \<or> int (length results) < page_size self
                   then Some (None, st3)
                   else if offset + page_size self \<ge> MAX_OFFSET then
                     Some (None, st3\<lparr>logged := logged st3 @ [YearOffsetLimit yr]\<rparr>)
                   else
                     page_loop session_get self stop_check has_callback total_estimate yr ps
                       (offset + page_size self) st3))"

declare page_loop.simps [code]

text \<open>The \<open>for year in range(year_start, year_end + 1)\<close> loop.\<close>

fun year_loop ::
  "'w session \<Rightarrow> client \<Rightarrow> 'w stop_check \<Rightarrow> bool \<Rightarrow> int \<Rightarrow> (int \<Rightarrow> params) \<Rightarrow> int list
     \<Rightarrow> 'w fetch_state \<Rightarrow> (gbif_error option \<times> 'w fetch_state) option" where
  "year_loop session_get self stop_check has_callback total_estimate mk_params [] st =
     Some (None, st)"
| "year_loop session_get self stop_check has_callback total_estimate mk_params (yr # yrs) st =
     (case poll stop_check st of
        (stop, st1) \<Rightarrow>
          if stop then Some (None, st1\<lparr>logged := logged st1 @ [DownloadStopped]\<rparr>)
          else
            case page_loop session_get self stop_check has_callback total_estimate yr
                   (mk_params yr) 0 (st1\<lparr>logged := logged st1 @ [ProcessingYear yr]\<rparr>) of
              None \<Rightarrow> None
            | Some (Some e, st2) \<Rightarrow> Some (Some e, st2)
            | Some (None, st2) \<Rightarrow>
                year_loop session_get self stop_check has_callback total_estimate mk_params
                  yrs st2)"

text \<open>
  \<open>iter_occurrences_by_year\<close>; \<open>now\<close> is \<open>datetime.now().year\<close>. An exception of the
  first request (the count) ends the generator before it yields anything.
\<close>

definition iter_occurrences_by_year ::
  "'w session \<Rightarrow> client \<Rightarrow> 'w \<Rightarrow> int \<Rightarrow> int \<Rightarrow> int \<Rightarrow> int option \<Rightarrow> basis \<Rightarrow> bool
     \<Rightarrow> string option \<Rightarrow> bool \<Rightarrow> 'w stop_check
     \<Rightarrow> (gbif_error option \<times> 'w fetch_state) option" where
  "iter_occurrences_by_year session_get self w now taxon_key year_from year_to basis_of_rec
       has_coordinate cntry has_callback stop_check =
     (let year_last = (case year_to of None \<Rightarrow> now | Some y \<Rightarrow> y) in
      case count_occurrences session_get w taxon_key basis_of_rec has_coordinate None cntry of
        (Inl e, w') \<Rightarrow>
          Some (Some e, \<lparr>world = w', yielded = [], seen = {}, count = 0, logged = [],
                         progress = []\<rparr>)
      | (Inr total_estimate, w') \<Rightarrow>
          (case year_loop session_get self stop_check has_callback total_estimate
                  (year_params self taxon_key has_coordinate basis_of_rec cntry)
                  [year_from..year_last]
                  \<lparr>world = w', yielded = [], seen = {}, count = 0,
                   logged = [EstimatedTotal total_estimate], progress = []\<rparr> of
             None \<Rightarrow> None
           | Some (Some e, st) \<Rightarrow> Some (Some e, st)
           | Some (None, st) \<Rightarrow>
               Some (None, st\<lparr>logged := logged st @ [DownloadedUnique (count st)]\<rparr>)))"

text \<open>
  A mocked session, as \<open>unittest.mock\<close> gives it with a \<open>side_effect\<close> list: the world is
  the list of the answers still to be given, each request takes the next one whatever its
  parameters are (a request beyond the end of the list fails). \<open>traced\<close> wraps a session and records every request with its answer.
\<close>

definition mock_session :: "http_outcome list session" where
  "mock_session w url ps =
     (case w of [] \<Rightarrow> (HttpRequestException ''StopIteration'', [])
      | x # xs \<Rightarrow> (x, xs))"

definition traced :: "'w session \<Rightarrow> ('w \<times> (params \<times> http_outcome) list) session" where
  "traced session_get wt url ps =
     (case session_get (fst wt) url ps of
        (out, w') \<Rightarrow> (out, (w', snd wt @ [(ps, out)])))"

definition is_api_error :: "gbif_error \<Rightarrow> bool" where
  "is_api_error e = (case e of APIError m \<Rightarrow> True | _ \<Rightarrow> False)"

section \<open>The checks of \<open>RecordFilter.apply\<close>, one by one\<close>

text \<open>
  Each check of \<open>apply\<close> as a function of its own: the reason code with which it drops
  the record, \<open>None\<close> when the record passes it, or the exception it raises (only the
  uncertainty check can raise). \<open>check_order\<close> lists them in the order in which the
  specification names them; \<open>first_failure\<close> runs a list of checks up to the first one
  that drops the record or raises.
\<close>

type_synonym filter_check =
  "str_methods \<Rightarrow> record_filter \<Rightarrow> occurrence_record \<Rightarrow> py_exception + string option"

definition chk_duplicate :: filter_check where
  "chk_duplicate py self r =
     Inr (if deduplicate (config self) \<and> key r \<in> seen_keys self then Some ''duplicate''
          else None)"

definition chk_required_year :: filter_check where
  "chk_required_year py self r =
     Inr (if require_year (config self) \<and> year r = None then Some ''missing_year'' else None)"

definition chk_year_range :: filter_check where
  "chk_year_range py self r =
     Inr (case year r of None \<Rightarrow> None
          | Some y \<Rightarrow>
             if y < year_start (config self) then Some ''year_too_old''
             else if (case year_end (config self) of None \<Rightarrow> False
                      | Some ye \<Rightarrow> ye \<noteq> 0 \<and> y > ye)
             then Some ''year_too_new'' else None)"

definition chk_required_elevation :: filter_check where
  "chk_required_elevation py self r =
     Inr (if require_elevation (config self) \<and> elevation r = None
          then Some ''missing_elevation'' else None)"

definition chk_uncertainty :: filter_check where
  "chk_uncertainty py self r =
     (case check_uncertainty self r of
        Inl e \<Rightarrow> Inl e
      | Inr unc_status \<Rightarrow>
          Inr (if unc_status = ''exceeded'' then Some ''uncertainty_exceeded''
               else if unc_status = ''unknown'' \<and> \<not> keep_unknown_uncertainty (config self)
               then Some ''uncertainty_unknown'' else None))"

definition chk_species :: filter_check where
  "chk_species py self r =
     Inr (if species_set self \<noteq> {} \<and> \<not> matches_species py self r
          then Some ''species_not_matched'' else None)"

definition chk_country :: filter_check where
  "chk_country py self r =
     Inr (if countries (config self) \<noteq> [] \<and>
             \<not> (\<exists>c \<in> set (countries (config self)).
                  str_in c (str_upper py (or_empty (country r))))
          then Some ''country_not_matched'' else None)"

definition chk_institution :: filter_check where
  "chk_institution py self r =
     Inr (if institutions (config self) \<noteq> [] \<and>
             \<not> (\<exists>i \<in> set (institutions (config self)).
                  str_in i (str_lower py (or_empty (institution_code r))))
          then Some ''institution_not_matched'' else None)"

fun first_failure ::
  "filter_check list \<Rightarrow> str_methods \<Rightarrow> record_filter \<Rightarrow> occurrence_record
     \<Rightarrow> py_exception + string option" where
  "first_failure [] py self r = Inr None"
| "first_failure (c # cs) py self r =
     (case c py self r of
        Inl e \<Rightarrow> Inl e
      | Inr (Some rsn) \<Rightarrow> Inr (Some rsn)
      | Inr None \<Rightarrow> first_failure cs py self r)"

definition check_order :: "filter_check list" where
  "check_order = [chk_duplicate, chk_required_year, chk_year_range, chk_required_elevation,
                  chk_uncertainty, chk_species, chk_country, chk_institution]"

section \<open>The page protocol, in the words of the specification\<close>

text \<open>
  \<open>last_page\<close>: the answer received at this offset reports end-of-records, or holds fewer
  results than the page size, or holds no results, or the advanced offset reaches the
  ceiling.
\<close>

definition last_page :: "client \<Rightarrow> int \<Rightarrow> api_json \<Rightarrow> bool" where
  "last_page self off data =
     (get_or (j_endOfRecords data) False
      \<or> int (length (get_or (j_results data) [])) < page_size self
      \<or> get_or (j_results data) [] = []
      \<or> MAX_OFFSET \<le> off + page_size self)"

text \<open>What \<open>_make_request\<close> makes of an answer of the session.\<close>

definition response_of :: "http_outcome \<Rightarrow> gbif_error + api_json" where
  "response_of out =
     (case out of
        HttpResponse status_code body \<Rightarrow>
          if status_code = 429 then
            Inl (RateLimitError ''GBIF rate limit exceeded. Please wait and retry.'')
          else if 400 \<le> status_code \<and> status_code < 600 then
            Inl (APIError (''HTTP error: '' @ str_of_int status_code))
          else Inr body
      | HttpConnectionError m \<Rightarrow> Inl (APIError (''Connection error: '' @ m))
      | HttpTimeout m \<Rightarrow> Inl (APIError (''Request timeout: '' @ m))
      | HttpRequestException m \<Rightarrow> Inl (APIError (''Request failed: '' @ m)))"

text \<open>
  \<open>page_protocol self base off tr\<close>: the requests \<open>tr\<close> of one year, with their answers,
  follow the protocol from offset \<open>off\<close>. Each request carries the parameters of the year
  and the current offset; after a request that fails, or whose answer is a last page, no
  further request is made; after any other answer the next request is made at the offset
  advanced by the page size.
\<close>

fun page_protocol :: "client \<Rightarrow> params \<Rightarrow> int \<Rightarrow> (params \<times> http_outcome) list \<Rightarrow> bool" where
  "page_protocol self base off [] = False"
| "page_protocol self base off ((ps, out) # rest) =
     (ps = base\<lparr>p_offset := Some off\<rparr> \<and>
      (case response_of out of
         Inl e \<Rightarrow> rest = []
       | Inr data \<Rightarrow>
           if last_page self off data then rest = []
           else page_protocol self base (off + page_size self) rest))"

text \<open>
  The items of a page that the deduplication of the generator lets through, given the keys
  seen so far; and the invariant of the generator: the yielded records have pairwise
  distinct keys, all of them seen, and \<open>count\<close> counts them.
\<close>

fun fresh_items :: "int set \<Rightarrow> occurrence_record list \<Rightarrow> occurrence_record list" where
  "fresh_items S [] = []"
| "fresh_items S (x # xs) =
     (if key x \<in> S then fresh_items S xs else x # fresh_items (insert (key x) S) xs)"

definition unique_keys :: "'w fetch_state \<Rightarrow> bool" where
  "unique_keys st = (distinct (map key (yielded st)) \<and> key ` set (yielded st) \<subseteq> seen st
                      \<and> count st = length (yielded st))"

section \<open>Sample inputs\<close>

subsection \<open>Records and configurations\<close>

definition blank_record :: occurrence_record where
  "blank_record =
     \<lparr>key = 0, year = None, event_date = None, latitude = None, longitude = None,
      coordinate_uncertainty = None, elevation = None, locality = None, rec_genus = None,
      species = None, scientific_name = None, specific_epithet = None,
      institution_code = None, catalog_number = None, recorded_by = None, country = None,
      state_province = None, rec_basis_of_record = None\<rparr>"

definition scenario_config :: filter_config where
  "scenario_config =
     FilterConfig_defaults\<lparr>genus := Some ''Nebria'', year_start := 1900, year_end := Some 2024,
       uncertainty_max := 1000, require_year := True, require_elevation := False,
       keep_unknown_uncertainty := True\<rparr>"

definition scenario_stats :: stats where
  "scenario_stats =
     [(''total'', 3), (''kept'', 1), (''duplicate'', 0), (''missing_year'', 1),
      (''year_too_old'', 0), (''year_too_new'', 0), (''missing_elevation'', 0),
      (''uncertainty_exceeded'', 1), (''uncertainty_unknown_kept'', 0),
      (''uncertainty_unknown_dropped'', 0), (''species_not_matched'', 0),
      (''country_not_matched'', 0), (''institution_not_matched'', 0)]"

text \<open>\<open>has_number v x\<close>: the value \<open>v\<close> is the number \<open>x\<close>, as a float or as an int.\<close>

definition has_number :: "py_value option \<Rightarrow> int \<Rightarrow> bool" where
  "has_number v x = (v = Some (PyFloat (Finite (real_of_int x))) \<or> v = Some (PyInt x))"

definition scenario_r1 :: occurrence_record where
  "scenario_r1 = blank_record\<lparr>key := 1, year := Some 2020,
     coordinate_uncertainty := Some (PyFloat (Finite 50)), elevation := Some 1500\<rparr>"

definition scenario_r2 :: occurrence_record where
  "scenario_r2 = blank_record\<lparr>key := 2\<rparr>"

definition scenario_r3 :: occurrence_record where
  "scenario_r3 = blank_record\<lparr>key := 3, year := Some 2020,
     coordinate_uncertainty := Some (PyFloat (Finite 5000))\<rparr>"

definition nebria_config :: filter_config where
  "nebria_config = FilterConfig_defaults\<lparr>genus := Some ''Nebria'', year_end := Some 2026\<rparr>"

definition bare_record :: occurrence_record where
  "bare_record = blank_record\<lparr>key := 7\<rparr>"

subsection \<open>Groups of checks, and further records and configurations\<close>

definition passes_earlier :: "str_methods \<Rightarrow> record_filter \<Rightarrow> occurrence_record \<Rightarrow> bool" where
  "passes_earlier py self r =
     (first_failure [chk_duplicate, chk_required_year, chk_year_range, chk_required_elevation]
        py self r = Inr None)"


definition species_config :: filter_config where
  "species_config = nebria_config\<lparr>species_list := [''germarii'']\<rparr>"


definition boundary_record :: "py_value option \<Rightarrow> occurrence_record" where
  "boundary_record unc = blank_record\<lparr>key := 1, year := Some 2020,
     coordinate_uncertainty := unc, elevation := Some 1500\<rparr>"


definition without_dedup :: "record_filter \<Rightarrow> record_filter" where
  "without_dedup self = self\<lparr>config := (config self)\<lparr>deduplicate := False\<rparr>\<rparr>"

definition other_checks :: "filter_check list" where
  "other_checks = [chk_required_year, chk_year_range, chk_required_elevation,
                   chk_uncertainty, chk_species, chk_country, chk_institution]"

definition nodedup_config :: filter_config where
  "nodedup_config = nebria_config\<lparr>deduplicate := False\<rparr>"

text \<open>
  A configuration whose limit is \<open>2 ^ 53\<close>, and records whose uncertainty is the int one
  above it, which is not a double, and an int beyond the range of the doubles.
\<close>

definition wide_config :: filter_config where
  "wide_config = nebria_config\<lparr>uncertainty_max := 2 ^ 53\<rparr>"

definition rounded_record :: occurrence_record where
  "rounded_record = boundary_record (Some (PyInt (2 ^ 53 + 1)))"

definition huge_record :: occurrence_record where
  "huge_record = boundary_record (Some (PyInt (2 ^ 1024)))"

subsection \<open>A mocked run\<close>

definition json_object :: api_json where
  "json_object =
     \<lparr>j_usageKey = None, j_scientificName = None, j_canonicalName = None, j_rank = None,
      j_status = None, j_confidence = None, j_matchType = None, j_kingdom = None,
      j_family = None, j_genus = None, j_count = None, j_results = None,
      j_endOfRecords = None\<rparr>"

definition count_json :: api_json where
  "count_json = json_object\<lparr>j_count := Some 3\<rparr>"

definition first_page :: api_json where
  "first_page = json_object\<lparr>j_count := Some 3,
     j_results := Some [scenario_r1, scenario_r2], j_endOfRecords := Some False\<rparr>"

definition second_page :: api_json where
  "second_page = json_object\<lparr>j_count := Some 3,
     j_results := Some [scenario_r3], j_endOfRecords := Some True\<rparr>"

definition mocked_answers :: "http_outcome list" where
  "mocked_answers =
     [HttpResponse 200 count_json, HttpResponse 200 first_page, HttpResponse 200 second_page]"

definition small_client :: client where
  "small_client = GBIFClient_init (10, 30) 3 2"

definition specimens :: basis where
  "specimens = BasisStr ''PRESERVED_SPECIMEN''"

subsection \<open>Sessions that fail, and answers of the name-match endpoint\<close>

definition failing_pages :: "unit session" where
  "failing_pages w url ps =
     (if p_limit ps = Some 0 then (HttpResponse 200 count_json, w)
      else (HttpConnectionError ''unreachable'', w))"

definition rate_limited_pages :: "unit session" where
  "rate_limited_pages w url ps =
     (if p_limit ps = Some 0 then (HttpResponse 200 count_json, w)
      else (HttpResponse 429 json_object, w))"

definition unreachable :: gbif_error where
  "unreachable = APIError ''Connection error: unreachable''"

definition rate_limit :: gbif_error where
  "rate_limit = RateLimitError ''GBIF rate limit exceeded. Please wait and retry.''"

definition fetch_start :: "unit fetch_state" where
  "fetch_start = \<lparr>world = (), yielded = [], seen = {}, count = 0,
                   logged = [EstimatedTotal 3], progress = []\<rparr>"

definition none_json :: api_json where
  "none_json = json_object\<lparr>j_matchType := Some ''NONE''\<rparr>"

definition insecta_json :: api_json where
  "insecta_json = json_object\<lparr>j_usageKey := Some 216, j_scientificName := Some ''Insecta'',
     j_canonicalName := Some ''Insecta'', j_rank := Some ''CLASS'',
     j_status := Some ''ACCEPTED'', j_confidence := Some 100,
     j_matchType := Some ''HIGHERRANK''\<rparr>"

definition nebria_json :: api_json where
  "nebria_json = json_object\<lparr>j_usageKey := Some 1035566,
     j_scientificName := Some ''Nebria Latreille, 1802'', j_canonicalName := Some ''Nebria'',
     j_rank := Some ''GENUS'', j_status := Some ''ACCEPTED'', j_confidence := Some 90,
     j_matchType := Some ''FUZZY''\<rparr>"

text \<open>
  Two sessions that answer the count, fail with a connection error for the pages of one
  year and answer a last page holding one record for the pages of every other year: the
  failing year is 2020 for the first, every year but 2020 for the second.
\<close>

definition first_year_fails :: "unit session" where
  "first_year_fails w url ps =
     (if p_limit ps = Some 0 then (HttpResponse 200 count_json, w)
      else if p_year ps = Some 2020 then (HttpConnectionError ''unreachable'', w)
      else (HttpResponse 200 second_page, w))"

definition later_years_fail :: "unit session" where
  "later_years_fail w url ps =
     (if p_limit ps = Some 0 then (HttpResponse 200 count_json, w)
      else if p_year ps = Some 2020 then (HttpResponse 200 second_page, w)
      else (HttpConnectionError ''unreachable'', w))"

section \<open>Properties of the record filter\<close>

lemmas chk_defs = chk_duplicate_def chk_required_year_def chk_year_range_def
  chk_required_elevation_def chk_uncertainty_def chk_species_def chk_country_def
  chk_institution_def

lemma check_uncertainty_seen [simp]:
  "check_uncertainty (self\<lparr>seen_keys := S\<rparr>) r = check_uncertainty self r"
  by (simp add: check_uncertainty_def split: option.splits sum.splits py_exception.splits)

lemma matches_species_seen [simp]:
  "matches_species py (self\<lparr>seen_keys := S\<rparr>) r = matches_species py self r"
  by (simp add: matches_species_def)

lemma apply_result_chain:
  "fst (RecordFilter_apply py self r) =
     (case first_failure check_order py self r of
        Inl e \<Rightarrow> Inl e
      | Inr (Some rsn) \<Rightarrow>
          Inr (FilterResult False (Some rsn)
                 (if rsn = ''uncertainty_exceeded'' then ''exceeded''
                  else if rsn = ''uncertainty_unknown'' then ''unknown'' else ''known''))
      | Inr None \<Rightarrow>
          (case check_uncertainty self r of
             Inl e \<Rightarrow> Inl e
           | Inr unc_status \<Rightarrow> Inr (FilterResult True None unc_status)))"
  by (cases "year r"; cases "year_end (config self)"; cases "check_uncertainty self r")
     (simp_all add: RecordFilter_apply_def check_order_def chk_defs Let_def)

lemma passed_checks_status:
  "first_failure check_order py self r = Inr None \<Longrightarrow> \<exists>s. check_uncertainty self r = Inr s"
  by (cases "check_uncertainty self r")
     (auto simp add: check_order_def chk_defs split: sum.splits option.splits if_splits)

lemma apply_reason_chain:
  "reason_of (fst (RecordFilter_apply py self r)) = first_failure check_order py self r"
proof (cases "first_failure check_order py self r")
  case (Inl e)
  then show ?thesis by (simp add: apply_result_chain reason_of_def)
next
  case (Inr rsn)
  show ?thesis
  proof (cases rsn)
    case None
    with Inr passed_checks_status [of py self r] obtain s where "check_uncertainty self r = Inr s"
      by auto
    with Inr None show ?thesis
      by (simp add: apply_result_chain reason_of_def FilterResult_def)
  next
    case (Some s)
    with Inr show ?thesis by (simp add: apply_result_chain reason_of_def FilterResult_def)
  qed
qed

lemma apply_keep_chain:
  "is_kept (fst (RecordFilter_apply py self r)) = (first_failure check_order py self r = Inr None)"
proof (cases "first_failure check_order py self r")
  case (Inl e)
  then show ?thesis by (simp add: apply_result_chain is_kept_def)
next
  case (Inr rsn)
  show ?thesis
  proof (cases rsn)
    case None
    with Inr passed_checks_status [of py self r] obtain s where "check_uncertainty self r = Inr s"
      by auto
    with Inr None show ?thesis
      by (simp add: apply_result_chain is_kept_def FilterResult_def)
  next
    case (Some s)
    with Inr show ?thesis by (simp add: apply_result_chain is_kept_def FilterResult_def)
  qed
qed

lemma apply_seen:
  "seen_keys (snd (RecordFilter_apply py self r)) =
     (if deduplicate (config self) then insert (key r) (seen_keys self) else seen_keys self)"
  by (auto simp add: RecordFilter_apply_def Let_def)

lemma apply_config [simp]:
  "config (snd (RecordFilter_apply py self r)) = config self"
  by (simp add: RecordFilter_apply_def Let_def)

lemma apply_species_set [simp]:
  "species_set (snd (RecordFilter_apply py self r)) = species_set self"
  by (simp add: RecordFilter_apply_def Let_def)

lemma apply_state:
  "snd (RecordFilter_apply py self r) =
     (if deduplicate (config self) \<and> key r \<notin> seen_keys self
      then self\<lparr>seen_keys := insert (key r) (seen_keys self)\<rparr> else self)"
  by (simp add: RecordFilter_apply_def Let_def)

lemma apply_duplicate:
  "deduplicate (config self) \<Longrightarrow> key r \<in> seen_keys self \<Longrightarrow>
     RecordFilter_apply py self r = (Inr (FilterResult False (Some ''duplicate'') ''known''), self)"
  by (simp add: RecordFilter_apply_def)

lemma check_uncertainty_values:
  "check_uncertainty self r = Inr s \<Longrightarrow> s \<in> {''known'', ''unknown'', ''exceeded''}"
  by (auto simp add: check_uncertainty_def
        split: option.splits sum.splits py_exception.splits if_splits)

subsection \<open>Conversion of ints to floats\<close>

lemma int_to_float_exact:
  "\<bar>i\<bar> \<le> 2 ^ 53 \<Longrightarrow> int_to_float i = Inr (Finite (real_of_int i))"
  by (simp add: int_to_float_def Let_def nat_le_iff)

lemma float_of_small_int:
  "\<bar>i\<bar> \<le> 2 ^ 53 \<Longrightarrow> float_of (PyInt i) = Inr (Finite (real_of_int i))"
  by (simp add: float_of_def int_to_float_exact)

lemma int_to_float_cases:
  "(\<exists>x. int_to_float i = Inr (Finite x)) \<or> (\<exists>m. int_to_float i = Inl (OverflowError m))"
  by (simp add: int_to_float_def Let_def)

subsection \<open>The end-to-end filter scenario\<close>

lemma check_uncertainty_number:
  assumes "has_number (coordinate_uncertainty r) x" and "\<bar>x\<bar> \<le> 2 ^ 53"
  shows "check_uncertainty self r =
           Inr (if x \<le> uncertainty_max (config self) then ''known'' else ''exceeded'')"
  using assms
  by (auto simp add: has_number_def check_uncertainty_def float_of_def int_to_float_exact
        float_le_int_def)

lemma scenario_config_constructed:
  "2023 \<le> now \<Longrightarrow> FilterConfig_post_init py now scenario_config = Inr scenario_config"
  by (simp add: FilterConfig_post_init_def scenario_config_def FilterConfig_defaults_def
        truthy_str_def validate_year_def validate_positive_int_def clean_string_list_def)

lemma scenario_filter:
  assumes keys: "key r1 \<noteq> key r2" "key r1 \<noteq> key r3" "key r2 \<noteq> key r3"
    and r1: "year r1 = Some 2020" "has_number (coordinate_uncertainty r1) 50"
    and r2: "year r2 = None"
    and r3: "year r3 = Some 2020" "has_number (coordinate_uncertainty r3) 5000"
  shows "filter_records py [r1, r2, r3] scenario_config = Inr ([r1], scenario_stats)"
proof -
  let ?f0 = "RecordFilter_init scenario_config"
  let ?f1 = "?f0\<lparr>seen_keys := {key r1}\<rparr>"
  let ?f2 = "?f0\<lparr>seen_keys := {key r2, key r1}\<rparr>"
  let ?f3 = "?f0\<lparr>seen_keys := {key r3, key r2, key r1}\<rparr>"
  have u1: "check_uncertainty f r1 =
              Inr (if 50 \<le> uncertainty_max (config f) then ''known'' else ''exceeded'')" for f
    using check_uncertainty_number [OF r1(2), of f] by simp
  have u3: "check_uncertainty f r3 =
              Inr (if 5000 \<le> uncertainty_max (config f) then ''known'' else ''exceeded'')" for f
    using check_uncertainty_number [OF r3(2), of f] by simp
  have a1: "RecordFilter_apply py ?f0 r1 = (Inr (FilterResult True None ''known''), ?f1)"
    using r1 by (simp add: RecordFilter_apply_def RecordFilter_init_def scenario_config_def
        FilterConfig_defaults_def u1 Let_def)
  have a2: "RecordFilter_apply py ?f1 r2 =
              (Inr (FilterResult False (Some ''missing_year'') ''known''), ?f2)"
    using r2 keys by (simp add: RecordFilter_apply_def RecordFilter_init_def scenario_config_def
        FilterConfig_defaults_def Let_def)
  have a3: "RecordFilter_apply py ?f2 r3 =
              (Inr (FilterResult False (Some ''uncertainty_exceeded'') ''exceeded''), ?f3)"
    using r3 keys by (simp add: RecordFilter_apply_def RecordFilter_init_def scenario_config_def
        FilterConfig_defaults_def u3 Let_def)
  show ?thesis
    by (simp add: filter_records_def a1 a2 a3 FilterResult_def initial_stats_def incr_def
        has_key_def scenario_stats_def)
qed

text \<open>
  C3. \<open>filter_records\<close> with the configuration FilterConfig(genus="Nebria",
  year_start=1900, year_end=2024, uncertainty_max=1000, require_year=true,
  require_elevation=false, keep_unknown_uncertainty=true), which the constructor accepts
  and leaves as it is from the year 2023 on, applied to three records with distinct keys
  -- (year 2020, uncertainty 50, elevation 1500), (no year), (year 2020, uncertainty 5000),
  the uncertainties being floats or ints -- returns exactly the first record, and
  statistics with total 3, kept 1, missing_year 1, uncertainty_exceeded 1 and every other
  counter 0. No exception is raised.
\<close>

theorem filter_scenario:
  assumes "2023 \<le> now"
    and "key r1 \<noteq> key r2" "key r1 \<noteq> key r3" "key r2 \<noteq> key r3"
    and "year r1 = Some 2020" "has_number (coordinate_uncertainty r1) 50"
        "elevation r1 = Some 1500"
    and "year r2 = None"
    and "year r3 = Some 2020" "has_number (coordinate_uncertainty r3) 5000"
  shows "FilterConfig_post_init py now scenario_config = Inr scenario_config \<and>
         filter_records py [r1, r2, r3] scenario_config = Inr ([r1], scenario_stats) \<and>
         map_of scenario_stats ''missing_year'' = Some 1 \<and>
         map_of scenario_stats ''uncertainty_exceeded'' = Some 1 \<and>
         map_of scenario_stats ''kept'' = Some 1 \<and>
         map_of scenario_stats ''total'' = Some 3"
  using assms scenario_config_constructed scenario_filter
  by (simp add: scenario_stats_def)

theorem filter_scenario_witness:
  "FilterConfig_post_init ascii_methods 2026 scenario_config = Inr scenario_config \<and>
   filter_records ascii_methods [scenario_r1, scenario_r2, scenario_r3] scenario_config
     = Inr ([scenario_r1], scenario_stats)"
  using filter_scenario [of 2026 scenario_r1 scenario_r2 scenario_r3 ascii_methods]
  by (simp add: scenario_r1_def scenario_r2_def scenario_r3_def blank_record_def
        has_number_def)

subsection \<open>Precedence of the reason codes\<close>

lemma nebria_config_constructed:
  "FilterConfig_post_init py 2026 (FilterConfig_defaults\<lparr>genus := Some ''Nebria''\<rparr>)
     = Inr nebria_config"
  by (simp add: FilterConfig_post_init_def nebria_config_def FilterConfig_defaults_def
        truthy_str_def validate_year_def validate_positive_int_def clean_string_list_def)

lemma bare_first:
  "RecordFilter_apply py (RecordFilter_init nebria_config) bare_record =
     (Inr (FilterResult False (Some ''missing_year'') ''known''),
      (RecordFilter_init nebria_config)\<lparr>seen_keys := {7}\<rparr>)"
  by (simp add: RecordFilter_apply_def RecordFilter_init_def nebria_config_def
        FilterConfig_defaults_def bare_record_def blank_record_def Let_def)

text \<open>
  The record with neither year nor elevation, applied a second time to the same filter, is
  dropped as a duplicate and not with \<open>missing_year\<close>.
\<close>

theorem precedence_counterexample:
  "year bare_record = None \<and> elevation bare_record = None \<and>
   require_year nebria_config \<and> require_elevation nebria_config \<and>
   fst (RecordFilter_apply ascii_methods
          (snd (RecordFilter_apply ascii_methods (RecordFilter_init nebria_config) bare_record))
          bare_record) = Inr (FilterResult False (Some ''duplicate'') ''known'') \<and>
   reason_of (fst (RecordFilter_apply ascii_methods
          (snd (RecordFilter_apply ascii_methods (RecordFilter_init nebria_config) bare_record))
          bare_record)) \<noteq> Inr (Some ''missing_year'')"
  by (simp add: bare_first)
     (simp add: RecordFilter_apply_def RecordFilter_init_def nebria_config_def
        FilterConfig_defaults_def bare_record_def blank_record_def FilterResult_def
        reason_of_def)

text \<open>
  C5 (amended). \<open>RecordFilter.apply\<close> evaluates the checks in the fixed order
  deduplication, required-year, year-range, required-elevation, coordinate-uncertainty,
  species, country, institution, and the first failing check determines the reason code
  (the record is kept exactly when no check fails, and \<open>apply\<close> raises exactly when the
  first check that does not pass raises). In particular a record with both year and
  elevation absent, under require_year and require_elevation, is always dropped, never
  with \<open>missing_elevation\<close>, and with \<open>missing_year\<close> unless the deduplication check
  drops it first as a \<open>duplicate\<close>.
\<close>

theorem precedence:
  "reason_of (fst (RecordFilter_apply py self r)) = first_failure check_order py self r \<and>
   is_kept (fst (RecordFilter_apply py self r))
     = (first_failure check_order py self r = Inr None) \<and>
   (year r = None \<and> elevation r = None \<and>
    require_year (config self) \<and> require_elevation (config self) \<longrightarrow>
      (\<exists>result. fst (RecordFilter_apply py self r) = Inr result \<and>
         \<not> keep result \<and>
         reason result \<noteq> Some ''missing_elevation'' \<and>
         reason result =
           (if deduplicate (config self) \<and> key r \<in> seen_keys self
            then Some ''duplicate'' else Some ''missing_year'')))"
  by (simp add: apply_reason_chain apply_keep_chain)
     (simp add: apply_result_chain check_order_def chk_duplicate_def chk_required_year_def
        FilterResult_def)

theorem precedence_witness:
  "year bare_record = None \<and> elevation bare_record = None \<and>
   require_year (config (RecordFilter_init nebria_config)) \<and>
   require_elevation (config (RecordFilter_init nebria_config)) \<and>
   (\<exists>result. fst (RecordFilter_apply ascii_methods (RecordFilter_init nebria_config) bare_record)
        = Inr result \<and> \<not> keep result \<and> reason result = Some ''missing_year'')"
proof -
  let ?f = "RecordFilter_init nebria_config"
  have h: "year bare_record = None" "elevation bare_record = None"
    "require_year (config ?f)" "require_elevation (config ?f)"
    "key bare_record \<notin> seen_keys ?f"
    by (simp_all add: RecordFilter_init_def nebria_config_def FilterConfig_defaults_def
        bare_record_def blank_record_def)
  show ?thesis
    using h precedence [of ascii_methods ?f bare_record, THEN conjunct2, THEN conjunct2]
    by auto
qed

subsection \<open>Classification of the coordinate uncertainty\<close>

lemma species_config_constructed:
  "FilterConfig_post_init ascii_methods 2026
     (FilterConfig_defaults\<lparr>genus := Some ''Nebria'', species_list := [''germarii'']\<rparr>)
     = Inr species_config"
  by (simp add: FilterConfig_post_init_def species_config_def nebria_config_def
        FilterConfig_defaults_def truthy_str_def validate_year_def validate_positive_int_def
        clean_string_list_def ascii_methods_def ascii_lower_char_def ascii_space_def)






lemma later_returns:
  "first_failure [chk_species, chk_country, chk_institution] py self r \<noteq> Inl e"
  by (simp add: chk_species_def chk_country_def chk_institution_def)





text \<open>
  The value is compared after \<open>float()\<close>. With the limit \<open>2 ^ 53\<close>, the int
  \<open>2 ^ 53 + 1\<close>, one unit above the limit, is rounded to \<open>2 ^ 53\<close>: the record is
  classified \<open>known\<close> and kept. An int beyond the doubles makes \<open>apply\<close> raise.
\<close>

lemma bit_length_bounds:
  "2 ^ k \<le> n \<Longrightarrow> n < 2 ^ Suc k \<Longrightarrow> bit_length n = Suc k"
proof (induction k arbitrary: n)
  case 0
  then have "n = 1" by simp
  then show ?case by (simp add: bit_length.simps)
next
  case (Suc k)
  have "2 ^ k \<le> n div 2" "n div 2 < 2 ^ Suc k" using Suc.prems by auto
  then have "bit_length (n div 2) = Suc k" by (rule Suc.IH)
  moreover have "0 < (2::nat) ^ Suc k" by simp
  then have "n \<noteq> 0" using Suc.prems(1) by linarith
  ultimately show ?case by (subst bit_length.simps) simp
qed

lemma int_to_float_rounded:
  "int_to_float (2 ^ 53 + 1) = Inr (Finite (2 ^ 53))"
proof -
  have b: "bit_length 9007199254740993 = 54"
    using bit_length_bounds [of 53 9007199254740993] by simp
  show ?thesis by (simp add: int_to_float_def Let_def b)
qed

lemma int_to_float_overflow:
  "int_to_float (2 ^ 1024) = Inl (OverflowError ''int too large to convert to float'')"
proof -
  have b: "bit_length 179769313486231590772930519078902473361797697894230657273430081157732675805500963132708477322407536021120113879871393357658789768814416622492847430639474124377767893424865485276302219601246094119453082952085005768838150682342462881473913110540827237163350510684586298239947245938479716304835356329624224137216 = 1025"
    using bit_length_bounds [of 1024 179769313486231590772930519078902473361797697894230657273430081157732675805500963132708477322407536021120113879871393357658789768814416622492847430639474124377767893424865485276302219601246094119453082952085005768838150682342462881473913110540827237163350510684586298239947245938479716304835356329624224137216] by simp
  show ?thesis by (simp add: int_to_float_def Let_def b)
qed

lemma rounded_record_kept:
  "uncertainty_max (config (RecordFilter_init wide_config)) = 2 ^ 53 \<and>
   coordinate_uncertainty rounded_record = Some (PyInt (2 ^ 53 + 1)) \<and>
   passes_earlier ascii_methods (RecordFilter_init wide_config) rounded_record \<and>
   RecordFilter_apply ascii_methods (RecordFilter_init wide_config) rounded_record
     = (Inr (FilterResult True None ''known''),
        (RecordFilter_init wide_config)\<lparr>seen_keys := {1}\<rparr>)"
proof -
  have c: "float_of (PyInt 9007199254740993) = Inr (Finite 9007199254740992)"
    using int_to_float_rounded by (simp add: float_of_def)
  show ?thesis
    by (simp add: passes_earlier_def chk_duplicate_def chk_required_year_def
        chk_year_range_def chk_required_elevation_def RecordFilter_apply_def
        RecordFilter_init_def wide_config_def nebria_config_def FilterConfig_defaults_def
        rounded_record_def boundary_record_def blank_record_def check_uncertainty_def c
        float_le_int_def Let_def)
qed

lemma huge_record_raises:
  "RecordFilter_apply ascii_methods (RecordFilter_init nebria_config) huge_record
     = (Inl (OverflowError ''int too large to convert to float''),
        (RecordFilter_init nebria_config)\<lparr>seen_keys := {1}\<rparr>) \<and>
   filter_records ascii_methods [huge_record] nebria_config
     = Inl (OverflowError ''int too large to convert to float'')"
proof -
  have c: "float_of (PyInt 179769313486231590772930519078902473361797697894230657273430081157732675805500963132708477322407536021120113879871393357658789768814416622492847430639474124377767893424865485276302219601246094119453082952085005768838150682342462881473913110540827237163350510684586298239947245938479716304835356329624224137216)
             = Inl (OverflowError ''int too large to convert to float'')"
    using int_to_float_overflow by (simp add: float_of_def)
  have a: "RecordFilter_apply ascii_methods (RecordFilter_init nebria_config) huge_record
     = (Inl (OverflowError ''int too large to convert to float''),
        (RecordFilter_init nebria_config)\<lparr>seen_keys := {1}\<rparr>)"
    by (simp add: RecordFilter_apply_def RecordFilter_init_def
        nebria_config_def FilterConfig_defaults_def huge_record_def
        boundary_record_def blank_record_def check_uncertainty_def c Let_def)
  show ?thesis by (simp add: a filter_records_def)
qed




subsection \<open>Deduplication\<close>

lemma check_order_tail:
  "first_failure check_order py self r =
     (case chk_duplicate py self r of
        Inl e \<Rightarrow> Inl e
      | Inr (Some rsn) \<Rightarrow> Inr (Some rsn)
      | Inr None \<Rightarrow> first_failure other_checks py self r)"
  by (simp add: check_order_def other_checks_def split: option.splits sum.splits)

lemma first_failure_cong:
  "\<forall>c \<in> set cs. c py self' r = c py self r \<Longrightarrow>
     first_failure cs py self' r = first_failure cs py self r"
  by (induction cs) (simp_all split: option.splits sum.splits)

lemma check_uncertainty_dedup [simp]:
  "check_uncertainty (self\<lparr>config := (config self)\<lparr>deduplicate := d\<rparr>\<rparr>) r
     = check_uncertainty self r"
  by (simp add: check_uncertainty_def
        cong: option.case_cong sum.case_cong py_exception.case_cong)

lemma matches_species_dedup [simp]:
  "matches_species py (self\<lparr>config := (config self)\<lparr>deduplicate := d\<rparr>\<rparr>) r
     = matches_species py self r"
  by (simp add: matches_species_def)

lemma other_checks_dedup:
  "first_failure other_checks py (self\<lparr>config := (config self)\<lparr>deduplicate := d\<rparr>\<rparr>) r
     = first_failure other_checks py self r"
  by (rule first_failure_cong)
     (simp add: other_checks_def chk_required_year_def chk_year_range_def
        chk_required_elevation_def chk_uncertainty_def chk_species_def chk_country_def
        chk_institution_def cong: option.case_cong sum.case_cong if_cong)

lemma satisfies_others:
  "is_kept (fst (RecordFilter_apply py (without_dedup self) r))
     = (first_failure other_checks py self r = Inr None)"
  by (simp add: apply_keep_chain check_order_tail [of py "without_dedup self"])
     (simp add: without_dedup_def chk_duplicate_def other_checks_dedup)

text \<open>
  C8. Two records with the same identifier are fed through one \<open>RecordFilter\<close> that has
  not seen the identifier before; the record satisfies every other filter criterion (it is
  kept when deduplication is switched off). With \<open>deduplicate\<close> enabled the first
  application keeps it and the second application of any record with that identifier is
  dropped with reason \<open>duplicate\<close>; with \<open>deduplicate\<close> disabled both applications keep
  it.
\<close>

theorem dedup_toggle:
  assumes "key r \<notin> seen_keys self"
    and "is_kept (fst (RecordFilter_apply py (without_dedup self) r))"
  shows "(deduplicate (config self) \<longrightarrow>
            is_kept (fst (RecordFilter_apply py self r)) \<and>
            (\<forall>r' :: occurrence_record. key r' = key r \<longrightarrow>
               fst (RecordFilter_apply py (snd (RecordFilter_apply py self r)) r')
                 = Inr (FilterResult False (Some ''duplicate'') ''known''))) \<and>
         (\<not> deduplicate (config self) \<longrightarrow>
            is_kept (fst (RecordFilter_apply py self r)) \<and>
            is_kept (fst (RecordFilter_apply py (snd (RecordFilter_apply py self r)) r)))"
proof -
  have others: "first_failure other_checks py self r = Inr None"
    using assms(2) by (simp add: satisfies_others)
  have k: "is_kept (fst (RecordFilter_apply py self r))"
    using assms(1) others by (simp add: apply_keep_chain check_order_tail chk_duplicate_def)
  show ?thesis
  proof (intro conjI impI allI)
    show "is_kept (fst (RecordFilter_apply py self r))" by (rule k)
    show "is_kept (fst (RecordFilter_apply py self r))" by (rule k)
  next
    fix r' :: occurrence_record
    assume d: "deduplicate (config self)" and "key r' = key r"
    then show "fst (RecordFilter_apply py (snd (RecordFilter_apply py self r)) r')
                 = Inr (FilterResult False (Some ''duplicate'') ''known'')"
      using assms(1) by (simp add: apply_state apply_duplicate)
  next
    assume "\<not> deduplicate (config self)"
    then show "is_kept (fst (RecordFilter_apply py (snd (RecordFilter_apply py self r)) r))"
      using k by (simp add: apply_state)
  qed
qed

theorem dedup_toggle_witness:
  "is_kept (fst (RecordFilter_apply ascii_methods (RecordFilter_init nebria_config) scenario_r1)) \<and>
   fst (RecordFilter_apply ascii_methods
          (snd (RecordFilter_apply ascii_methods (RecordFilter_init nebria_config) scenario_r1))
          scenario_r1)
     = Inr (FilterResult False (Some ''duplicate'') ''known'') \<and>
   is_kept (fst (RecordFilter_apply ascii_methods (RecordFilter_init nodedup_config)
                   scenario_r1)) \<and>
   is_kept (fst (RecordFilter_apply ascii_methods
          (snd (RecordFilter_apply ascii_methods (RecordFilter_init nodedup_config) scenario_r1))
          scenario_r1))"
proof -
  let ?f = "RecordFilter_init nebria_config" and ?g = "RecordFilter_init nodedup_config"
  let ?py = ascii_methods
  have fresh: "key scenario_r1 \<notin> seen_keys ?f" "key scenario_r1 \<notin> seen_keys ?g"
    by (simp_all add: RecordFilter_init_def)
  have d: "deduplicate (config ?f)" "\<not> deduplicate (config ?g)"
    by (simp_all add: RecordFilter_init_def nodedup_config_def nebria_config_def
          FilterConfig_defaults_def)
  have others: "first_failure other_checks ?py ?f scenario_r1 = Inr None"
    "first_failure other_checks ?py ?g scenario_r1 = Inr None"
    by (simp_all add: other_checks_def chk_defs RecordFilter_init_def nodedup_config_def
          nebria_config_def FilterConfig_defaults_def scenario_r1_def blank_record_def
          check_uncertainty_def float_of_def float_le_int_def)
  have ok: "is_kept (fst (RecordFilter_apply ?py (without_dedup ?f) scenario_r1))"
    "is_kept (fst (RecordFilter_apply ?py (without_dedup ?g) scenario_r1))"
    using others by (simp_all add: satisfies_others)
  show ?thesis
    using dedup_toggle [OF fresh(1) ok(1)] dedup_toggle [OF fresh(2) ok(2)] d by simp
qed

text \<open>
  C10. With \<open>deduplicate\<close> enabled, \<open>apply\<close> adds the key of the record to the seen
  set before any later check runs: when the first application does not keep a record, for
  a reason other than \<open>duplicate\<close> (its key was therefore new, and no record with that key
  was ever kept), the key is in the seen set afterwards, and a second application of any
  record with the same key is dropped with reason \<open>duplicate\<close>, leaving the filter
  unchanged. This also holds when the first application ends with an exception.
\<close>

theorem seen_before_later_checks:
  assumes "deduplicate (config self)"
    and "\<not> is_kept (fst (RecordFilter_apply py self r))"
    and "reason_of (fst (RecordFilter_apply py self r)) \<noteq> Inr (Some ''duplicate'')"
  shows "key r \<notin> seen_keys self \<and>
         seen_keys (snd (RecordFilter_apply py self r)) = insert (key r) (seen_keys self) \<and>
         (\<forall>r' :: occurrence_record. key r' = key r \<longrightarrow>
            RecordFilter_apply py (snd (RecordFilter_apply py self r)) r'
              = (Inr (FilterResult False (Some ''duplicate'') ''known''),
                 snd (RecordFilter_apply py self r)))"
proof -
  have fresh: "key r \<notin> seen_keys self"
    using assms(1,3) by (auto simp add: apply_duplicate FilterResult_def reason_of_def)
  then show ?thesis
    using assms(1) by (simp add: apply_state apply_duplicate)
qed

theorem seen_before_later_checks_witness:
  "fst (RecordFilter_apply ascii_methods (RecordFilter_init nebria_config) bare_record)
     = Inr (FilterResult False (Some ''missing_year'') ''known'') \<and>
   RecordFilter_apply ascii_methods
       (snd (RecordFilter_apply ascii_methods (RecordFilter_init nebria_config) bare_record))
       (scenario_r1\<lparr>key := 7\<rparr>)
     = (Inr (FilterResult False (Some ''duplicate'') ''known''),
        snd (RecordFilter_apply ascii_methods (RecordFilter_init nebria_config) bare_record))"
proof -
  let ?f = "RecordFilter_init nebria_config"
  let ?py = ascii_methods
  have d: "deduplicate (config ?f)"
    by (simp add: RecordFilter_init_def nebria_config_def FilterConfig_defaults_def)
  have r: "fst (RecordFilter_apply ?py ?f bare_record)
             = Inr (FilterResult False (Some ''missing_year'') ''known'')"
    by (simp add: bare_first)
  have h: "\<not> is_kept (fst (RecordFilter_apply ?py ?f bare_record))"
    "reason_of (fst (RecordFilter_apply ?py ?f bare_record)) \<noteq> Inr (Some ''duplicate'')"
    by (simp_all add: r FilterResult_def is_kept_def reason_of_def)
  have k: "key (scenario_r1\<lparr>key := 7\<rparr>) = key bare_record"
    by (simp add: bare_record_def)
  show ?thesis
    using seen_before_later_checks [OF d h] k r by blast
qed

subsection \<open>Validation in the constructor of \<open>FilterConfig\<close>\<close>

text \<open>
  C4. The claim asks that construction fails for every \<open>year_start\<close> below 1700. The
  constructor validates \<open>year_start\<close> only when it is truthy, so FilterConfig(genus="Nebria",
  year_start=0) is accepted, in 2026, with \<open>year_start = 0\<close>.
\<close>

theorem year_start_zero_accepted:
  "FilterConfig_post_init py 2026
     (FilterConfig_defaults\<lparr>genus := Some ''Nebria'', year_start := 0\<rparr>)
     = Inr (nebria_config\<lparr>year_start := 0\<rparr>)"
  by (simp add: FilterConfig_post_init_def nebria_config_def FilterConfig_defaults_def
        truthy_str_def validate_year_def validate_positive_int_def clean_string_list_def)

text \<open>
  The rest of the validation is as specified: after a successful construction
  \<open>year_start \<le> year_end\<close>; every non-zero \<open>year_start\<close> below 1700 and every \<open>year_end\<close>
  beyond the current year plus one is refused with a \<open>ValueError\<close>.
\<close>

lemma validate_year_cases:
  "validate_year now y f = Inr y' \<Longrightarrow> y' = y \<and> 1700 \<le> y \<and> y \<le> now + 1"
  by (simp add: validate_year_def split: if_splits)

lemma validate_year_raises:
  "y < 1700 \<or> now + 1 < y \<Longrightarrow> \<exists>m. validate_year now y f = Inl (ValueError m)"
  by (auto simp add: validate_year_def)

lemma post_init_year_order:
  "FilterConfig_post_init py now c = Inr c' \<Longrightarrow>
     \<exists>ye. year_end c' = Some ye \<and> year_start c' \<le> ye"
  by (auto simp add: FilterConfig_post_init_def split: if_splits sum.splits option.splits
        dest!: validate_year_cases)

lemma post_init_year_start_old:
  "year_start c < 1700 \<Longrightarrow> year_start c \<noteq> 0 \<Longrightarrow>
     \<exists>m. FilterConfig_post_init py now c = Inl (ValueError m)"
  using validate_year_raises [of "year_start c" now "''year_start''"]
  by (auto simp add: FilterConfig_post_init_def)

lemma post_init_year_end_future:
  "0 \<le> now \<Longrightarrow> year_end c = Some ye \<Longrightarrow> now + 1 < ye \<Longrightarrow>
     \<exists>m. FilterConfig_post_init py now c = Inl (ValueError m)"
  using validate_year_raises [of ye now "''year_end''"]
  by (cases "validate_year now (year_start c) ''year_start''")
     (auto simp add: FilterConfig_post_init_def validate_year_def split: if_splits)

text \<open>A configuration that names both a genus and a family is accepted.\<close>

theorem both_anchors_accepted:
  "FilterConfig_post_init ascii_methods 2026
     (FilterConfig_defaults\<lparr>genus := Some ''Nebria'', family := Some ''Carabidae''\<rparr>)
     = Inr (nebria_config\<lparr>family := Some ''Carabidae''\<rparr>)"
  by (simp add: FilterConfig_post_init_def nebria_config_def FilterConfig_defaults_def
        truthy_str_def validate_year_def validate_positive_int_def clean_string_list_def)

text \<open>
  C9 (amended). The constructor of \<open>FilterConfig\<close> succeeds only when at least one of
  genus and family is non-empty: when neither is supplied it raises, at construction time,
  the \<open>ValueError\<close> "Either genus or family must be specified". Supplying both is not an
  error.
\<close>

theorem taxonomic_anchor:
  "(\<not> truthy_str (genus c) \<and> \<not> truthy_str (family c) \<longrightarrow>
      FilterConfig_post_init py now c
        = Inl (ValueError ''Either genus or family must be specified'')) \<and>
   (\<forall>c'. FilterConfig_post_init py now c = Inr c' \<longrightarrow>
      truthy_str (genus c) \<or> truthy_str (family c))"
  by (auto simp add: FilterConfig_post_init_def)

theorem taxonomic_anchor_witness:
  "FilterConfig_post_init ascii_methods 2026 FilterConfig_defaults
     = Inl (ValueError ''Either genus or family must be specified'') \<and>
   truthy_str (genus (FilterConfig_defaults\<lparr>genus := Some ''Nebria''\<rparr>))"
proof -
  have n: "\<not> truthy_str (genus FilterConfig_defaults)"
    "\<not> truthy_str (family FilterConfig_defaults)"
    "\<not> truthy_str (family (FilterConfig_defaults\<lparr>genus := Some ''Nebria''\<rparr>))"
    by (simp_all add: FilterConfig_defaults_def truthy_str_def)
  show ?thesis
    using taxonomic_anchor [of FilterConfig_defaults ascii_methods 2026] n(1,2)
      taxonomic_anchor [of "FilterConfig_defaults\<lparr>genus := Some ''Nebria''\<rparr>"
        ascii_methods 2026] n(3)
      nebria_config_constructed [of ascii_methods]
    by simp
qed

section \<open>Properties of the year-bucketed fetch\<close>

subsection \<open>One iteration of the page loop\<close>

lemma poll_None [simp]: "poll None st = (False, st)"
  by (simp add: poll_def)

lemma page_loop_cancel:
  "poll stop_check st = (True, st1) \<Longrightarrow>
     page_loop session_get self stop_check cb tot yr ps off st = Some (None, st1)"
  by (subst page_loop.simps) simp

lemma page_loop_api_error:
  "poll stop_check st = (False, st1) \<Longrightarrow>
   make_request session_get (world st1) OCCURRENCE_SEARCH_ENDPOINT (ps\<lparr>p_offset := Some off\<rparr>)
     = (Inl (APIError m), w') \<Longrightarrow>
     page_loop session_get self stop_check cb tot yr ps off st
       = Some (None, st1\<lparr>world := w', logged := logged st1 @ [ErrorFetchingYear yr (APIError m)]\<rparr>)"
  by (subst page_loop.simps) simp

lemma page_loop_other_error:
  "poll stop_check st = (False, st1) \<Longrightarrow>
   make_request session_get (world st1) OCCURRENCE_SEARCH_ENDPOINT (ps\<lparr>p_offset := Some off\<rparr>)
     = (Inl e, w') \<Longrightarrow> \<not> is_api_error e \<Longrightarrow>
     page_loop session_get self stop_check cb tot yr ps off st
       = Some (Some e, st1\<lparr>world := w'\<rparr>)"
  by (subst page_loop.simps) (simp add: is_api_error_def split: gbif_error.splits)

lemma page_loop_response:
  "poll stop_check st = (False, st1) \<Longrightarrow>
   make_request session_get (world st1) OCCURRENCE_SEARCH_ENDPOINT (ps\<lparr>p_offset := Some off\<rparr>)
     = (Inr data, w') \<Longrightarrow>
     page_loop session_get self stop_check cb tot yr ps off st =
       (if get_or (j_results data) [] = [] then Some (None, st1\<lparr>world := w'\<rparr>)
        else if get_or (j_endOfRecords data) False
                \<or> int (length (get_or (j_results data) [])) < page_size self
        then Some (None, yield_results cb tot yr (get_or (j_results data) []) (st1\<lparr>world := w'\<rparr>))
        else if MAX_OFFSET \<le> off + page_size self
        then Some (None, (yield_results cb tot yr (get_or (j_results data) []) (st1\<lparr>world := w'\<rparr>))
                           \<lparr>logged := logged (yield_results cb tot yr (get_or (j_results data) [])
                                                (st1\<lparr>world := w'\<rparr>)) @ [YearOffsetLimit yr]\<rparr>)
        else page_loop session_get self stop_check cb tot yr ps (off + page_size self)
               (yield_results cb tot yr (get_or (j_results data) []) (st1\<lparr>world := w'\<rparr>)))"
  by (subst page_loop.simps) (simp add: Let_def)

lemma year_loop_single:
  "year_loop session_get self None cb tot mk [yr] st =
     (case page_loop session_get self None cb tot yr (mk yr) 0
             (st\<lparr>logged := logged st @ [ProcessingYear yr]\<rparr>) of
        None \<Rightarrow> None
      | Some (Some e, st2) \<Rightarrow> Some (Some e, st2)
      | Some (None, st2) \<Rightarrow> Some (None, st2))"
  by (simp split: option.splits)

subsection \<open>Deduplication inside the generator\<close>

lemma yield_results_world [simp]: "world (yield_results cb tot yr rs st) = world st"
  by (induction rs arbitrary: st) simp_all

lemma yield_results_logged [simp]: "logged (yield_results cb tot yr rs st) = logged st"
  by (induction rs arbitrary: st) simp_all

lemma yield_results_yielded:
  "yielded (yield_results cb tot yr rs st) = yielded st @ fresh_items (seen st) rs"
  by (induction rs arbitrary: st) simp_all

lemma yield_results_seen:
  "seen (yield_results cb tot yr rs st) = seen st \<union> key ` set rs"
  by (induction rs arbitrary: st) auto

lemma yield_results_count:
  "count (yield_results cb tot yr rs st) = count st + length (fresh_items (seen st) rs)"
  by (induction rs arbitrary: st) simp_all

lemma fresh_items_distinct:
  "distinct (map key rs) \<Longrightarrow> key ` set rs \<inter> S = {} \<Longrightarrow> fresh_items S rs = rs"
  by (induction rs arbitrary: S) auto

lemma fresh_items_keys:
  "distinct (map key (fresh_items S rs)) \<and> key ` set (fresh_items S rs) \<inter> S = {}
   \<and> key ` set (fresh_items S rs) \<subseteq> key ` set rs"
  by (induction rs arbitrary: S) auto

lemma yield_results_unique:
  "unique_keys st \<Longrightarrow> unique_keys (yield_results cb tot yr rs st)"
  using fresh_items_keys [of "seen st" rs]
  by (auto simp add: unique_keys_def yield_results_yielded yield_results_seen yield_results_count)

lemma poll_fields [simp]:
  "yielded (snd (poll sc st)) = yielded st" "seen (snd (poll sc st)) = seen st"
  "count (snd (poll sc st)) = count st" "logged (snd (poll sc st)) = logged st"
  by (simp_all add: poll_def split: option.splits prod.splits)

lemma unique_keys_update [simp]:
  "unique_keys (st\<lparr>world := w\<rparr>) = unique_keys st"
  "unique_keys (st\<lparr>logged := l\<rparr>) = unique_keys st"
  by (simp_all add: unique_keys_def)

lemma poll_unique: "poll sc st = (b, st1) \<Longrightarrow> unique_keys st1 = unique_keys st"
proof -
  assume "poll sc st = (b, st1)"
  then have "yielded st1 = yielded st" "seen st1 = seen st" "count st1 = count st"
    using poll_fields [of sc st] by simp_all
  then show ?thesis by (simp add: unique_keys_def)
qed

lemma poll_yielded: "poll sc st = (b, st1) \<Longrightarrow> yielded st1 = yielded st"
  using poll_fields(1) [of sc st] by simp

lemma unique_keys_initial:
  "unique_keys \<lparr>world = w, yielded = [], seen = {}, count = 0, logged = l, progress = p\<rparr>"
  by (simp add: unique_keys_def)

lemma unique_keys_distinct: "unique_keys st \<Longrightarrow> distinct (map key (yielded st))"
  by (simp add: unique_keys_def)

lemma page_loop_unique:
  assumes "page_loop session_get self sc cb tot yr ps off st = Some y"
  shows "unique_keys st \<longrightarrow> unique_keys (snd y)"
  by (rule page_loop.raw_induct
        [where P = "\<lambda>_ _ _ _ _ _ _ _ st y. unique_keys st \<longrightarrow> unique_keys (snd y)", OF _ assms])
     (auto simp add: Let_def yield_results_unique poll_unique
        split: prod.splits if_splits sum.splits gbif_error.splits)

lemma page_loop_extends:
  assumes "page_loop session_get self sc cb tot yr ps off st = Some y"
  shows "\<exists>ys. yielded (snd y) = yielded st @ ys"
  by (rule page_loop.raw_induct
        [where P = "\<lambda>_ _ _ _ _ _ _ _ st y. \<exists>ys. yielded (snd y) = yielded st @ ys", OF _ assms])
     (fastforce simp add: Let_def yield_results_yielded poll_yielded
        split: prod.splits if_splits sum.splits gbif_error.splits)

lemma year_loop_unique:
  "year_loop session_get self sc cb tot mk yrs st = Some y \<Longrightarrow> unique_keys st
     \<Longrightarrow> unique_keys (snd y)"
proof (induction yrs arbitrary: st)
  case Nil
  then show ?case by auto
next
  case (Cons yr yrs)
  obtain b st1 where p: "poll sc st = (b, st1)" by force
  show ?case
  proof (cases b)
    case True
    with Cons.prems p show ?thesis by (auto simp add: poll_unique)
  next
    case False
    let ?st1 = "st1\<lparr>logged := logged st1 @ [ProcessingYear yr]\<rparr>"
    from Cons.prems p False obtain r st2 where
      pl: "page_loop session_get self sc cb tot yr (mk yr) 0 ?st1 = Some (r, st2)"
      by (auto split: option.splits)
    have u2: "unique_keys st2"
      using page_loop_unique [OF pl] Cons.prems(2) p by (simp add: poll_unique)
    show ?thesis
    proof (cases r)
      case None
      with Cons.prems(1) p False pl have "year_loop session_get self sc cb tot mk yrs st2 = Some y"
        by simp
      then show ?thesis using Cons.IH u2 by blast
    next
      case (Some e)
      with Cons.prems(1) p False pl have "y = (Some e, st2)" by simp
      then show ?thesis using u2 by simp
    qed
  qed
qed

lemma iter_unique:
  assumes "iter_occurrences_by_year session_get self w now tk y0 y1 bs hc cn cb sc = Some y"
  shows "unique_keys (snd y)"
proof (cases "count_occurrences session_get w tk bs hc None cn")
  case (Pair r w')
  show ?thesis
  proof (cases r)
    case (Inl e)
    with assms Pair show ?thesis
      by (auto simp add: iter_occurrences_by_year_def unique_keys_initial)
  next
    case (Inr tot)
    let ?st0 = "\<lparr>world = w', yielded = [], seen = {}, count = 0,
                  logged = [EstimatedTotal tot], progress = []\<rparr>"
    from assms Pair Inr obtain z where
      yl: "year_loop session_get self sc cb tot (year_params self tk hc bs cn)
             [y0..(case y1 of None \<Rightarrow> now | Some y \<Rightarrow> y)] ?st0 = Some z"
      by (auto simp add: iter_occurrences_by_year_def split: option.splits)
    have uz: "unique_keys (snd z)"
      by (rule year_loop_unique [OF yl unique_keys_initial])
    from assms Pair Inr yl have "snd y = snd z \<or>
        snd y = (snd z)\<lparr>logged := logged (snd z) @ [DownloadedUnique (count (snd z))]\<rparr>"
      by (cases z) (auto simp add: iter_occurrences_by_year_def split: option.splits)
    with uz show ?thesis by auto
  qed
qed

subsection \<open>Errors of page requests\<close>

lemma page_loop_no_api_error:
  assumes "page_loop session_get self sc cb tot yr ps off st = Some y"
  shows "\<forall>e. fst y = Some e \<longrightarrow> \<not> is_api_error e"
  by (rule page_loop.raw_induct
        [where P = "\<lambda>_ _ _ _ _ _ _ _ st y. \<forall>e. fst y = Some e \<longrightarrow> \<not> is_api_error e", OF _ assms])
     (auto simp add: Let_def is_api_error_def
        split: prod.splits if_splits sum.splits gbif_error.splits)

lemma year_loop_no_api_error:
  "year_loop session_get self sc cb tot mk yrs st = Some y \<Longrightarrow> fst y = Some e
     \<Longrightarrow> \<not> is_api_error e"
proof (induction yrs arbitrary: st)
  case Nil
  then show ?case by auto
next
  case (Cons yr yrs)
  obtain b st1 where p: "poll sc st = (b, st1)" by force
  show ?case
  proof (cases b)
    case True
    with Cons.prems p show ?thesis by auto
  next
    case False
    let ?st1 = "st1\<lparr>logged := logged st1 @ [ProcessingYear yr]\<rparr>"
    from Cons.prems p False obtain r st2 where
      pl: "page_loop session_get self sc cb tot yr (mk yr) 0 ?st1 = Some (r, st2)"
      by (auto split: option.splits)
    show ?thesis
    proof (cases r)
      case None
      with Cons.prems(1) p False pl have "year_loop session_get self sc cb tot mk yrs st2 = Some y"
        by simp
      then show ?thesis using Cons.IH Cons.prems(2) by blast
    next
      case (Some e')
      with Cons.prems p False pl have "e' = e" by auto
      then show ?thesis using page_loop_no_api_error [OF pl] Some by simp
    qed
  qed
qed

lemma iter_no_api_error:
  "count_occurrences session_get w tk bs hc None cn = (Inr tot, w') \<Longrightarrow>
   iter_occurrences_by_year session_get self w now tk y0 y1 bs hc cn cb sc = Some (Some e, st)
     \<Longrightarrow> \<not> is_api_error e"
  by (auto simp add: iter_occurrences_by_year_def Let_def
        split: prod.splits sum.splits option.splits
        dest!: year_loop_no_api_error)

subsection \<open>The page protocol\<close>

text \<open>
  With a positive page size and no cancellation the page loop of a year returns, and the
  requests it made follow the protocol.
\<close>

lemma make_request_response_of:
  "session_get w (GBIF_API_BASE @ endpoint) ps = (out, w') \<Longrightarrow>
     make_request session_get w endpoint ps = (response_of out, w')"
  by (simp add: make_request_def response_of_def split: http_outcome.splits)

lemma make_request_traced:
  "session_get (fst wt) (GBIF_API_BASE @ endpoint) ps = (out, w') \<Longrightarrow>
     make_request (traced session_get) wt endpoint ps
       = (response_of out, (w', snd wt @ [(ps, out)]))"
  by (rule make_request_response_of) (simp add: traced_def)

lemma page_loop_protocol:
  assumes pos: "0 < page_size self"
  shows "\<exists>r st' tr.
           page_loop (traced session_get) self None cb tot yr base off st = Some (r, st') \<and>
           snd (world st') = snd (world st) @ tr \<and> page_protocol self base off tr"
proof (induction "nat (MAX_OFFSET - off)" arbitrary: off st rule: less_induct)
  case less
  let ?ps = "base\<lparr>p_offset := Some off\<rparr>"
  obtain out w' where
    g: "session_get (fst (world st)) (GBIF_API_BASE @ OCCURRENCE_SEARCH_ENDPOINT) ?ps = (out, w')"
    by force
  let ?w = "(w', snd (world st) @ [(?ps, out)])"
  have mr: "make_request (traced session_get) (world st) OCCURRENCE_SEARCH_ENDPOINT ?ps
              = (response_of out, ?w)"
    using g by (rule make_request_traced [where session_get = session_get and wt = "world st"])
  show ?case
  proof (cases "response_of out")
    case (Inl e)
    have c: "page_protocol self base off [(?ps, out)]" using Inl by simp
    show ?thesis
    proof (cases "is_api_error e")
      case True
      then obtain m where e: "e = APIError m"
        by (cases e) (simp_all add: is_api_error_def)
      let ?st' = "st\<lparr>world := ?w, logged := logged st @ [ErrorFetchingYear yr (APIError m)]\<rparr>"
      have a: "page_loop (traced session_get) self None cb tot yr base off st = Some (None, ?st')"
        using mr Inl e by (intro page_loop_api_error) simp_all
      have b: "snd (world ?st') = snd (world st) @ [(?ps, out)]" by simp
      from a b c show ?thesis by blast
    next
      case False
      let ?st' = "st\<lparr>world := ?w\<rparr>"
      have a: "page_loop (traced session_get) self None cb tot yr base off st = Some (Some e, ?st')"
        using mr Inl False by (intro page_loop_other_error) simp_all
      have b: "snd (world ?st') = snd (world st) @ [(?ps, out)]" by simp
      from a b c show ?thesis by blast
    qed
  next
    case (Inr data)
    let ?rs = "get_or (j_results data) []"
    let ?st3 = "yield_results cb tot yr ?rs (st\<lparr>world := ?w\<rparr>)"
    have mr': "make_request (traced session_get) (world st) OCCURRENCE_SEARCH_ENDPOINT ?ps
                 = (Inr data, ?w)"
      using mr Inr by simp
    note step = page_loop_response [OF poll_None mr', where self = self and cb = cb
        and tot = tot and yr = yr]
    show ?thesis
    proof (cases "last_page self off data")
      case True
      define st' where "st' =
        (if ?rs = [] then st\<lparr>world := ?w\<rparr>
         else if get_or (j_endOfRecords data) False \<or> int (length ?rs) < page_size self
         then ?st3 else ?st3\<lparr>logged := logged ?st3 @ [YearOffsetLimit yr]\<rparr>)"
      have a: "page_loop (traced session_get) self None cb tot yr base off st = Some (None, st')"
        using True unfolding step st'_def last_page_def by auto
      have "world st' = ?w" by (simp add: st'_def)
      then have b: "snd (world st') = snd (world st) @ [(?ps, out)]" by simp
      have c: "page_protocol self base off [(?ps, out)]" using Inr True by simp
      from a b c show ?thesis by blast
    next
      case False
      then have lt: "off + page_size self < MAX_OFFSET" by (simp add: last_page_def)
      have rec: "page_loop (traced session_get) self None cb tot yr base off st
                   = page_loop (traced session_get) self None cb tot yr base (off + page_size self) ?st3"
        using step False by (simp add: last_page_def)
      have "nat (MAX_OFFSET - (off + page_size self)) < nat (MAX_OFFSET - off)"
        using pos lt by simp
      from less [OF this, of ?st3] obtain r st' tr where
        r: "page_loop (traced session_get) self None cb tot yr base (off + page_size self) ?st3
              = Some (r, st')"
        "snd (world st') = snd (world ?st3) @ tr"
        "page_protocol self base (off + page_size self) tr"
        by blast
      have a: "page_loop (traced session_get) self None cb tot yr base off st = Some (r, st')"
        using rec r(1) by simp
      have b: "snd (world st') = snd (world st) @ ((?ps, out) # tr)" using r(2) by simp
      have c: "page_protocol self base off ((?ps, out) # tr)" using Inr False r(3) by simp
      from a b c show ?thesis by blast
    qed
  qed
qed

lemma year_loop_protocol:
  assumes "0 < page_size self"
  shows "\<exists>r st' tr.
           year_loop (traced session_get) self None cb tot mk [yr] st = Some (r, st') \<and>
           snd (world st') = snd (world st) @ tr \<and> page_protocol self (mk yr) 0 tr"
proof -
  let ?st1 = "st\<lparr>logged := logged st @ [ProcessingYear yr]\<rparr>"
  from page_loop_protocol [OF assms, of session_get cb tot yr "mk yr" 0 ?st1]
  obtain r st' tr where
    a: "page_loop (traced session_get) self None cb tot yr (mk yr) 0 ?st1 = Some (r, st')"
    and b: "snd (world st') = snd (world ?st1) @ tr" and c: "page_protocol self (mk yr) 0 tr"
    by blast
  have "year_loop (traced session_get) self None cb tot mk [yr] st = Some (r, st')"
    using a by (cases r) (simp_all add: year_loop_single)
  then show ?thesis using b c by auto
qed

subsection \<open>The loops return\<close>

text \<open>
  With a positive page size the page loop of a year, the loop over the years and the
  generator all return, whatever the session answers and whatever the cancellation
  predicate says.
\<close>

lemma page_loop_returns:
  assumes pos: "0 < page_size self"
  shows "\<exists>res. page_loop session_get self sc cb tot yr ps off st = Some res"
proof (induction "nat (MAX_OFFSET - off)" arbitrary: off st rule: less_induct)
  case less
  obtain b st1 where p: "poll sc st = (b, st1)" by force
  show ?case
  proof (cases b)
    case True
    with p show ?thesis by (simp add: page_loop_cancel)
  next
    case False
    with p have p': "poll sc st = (False, st1)" by simp
    obtain r w' where
      mr: "make_request session_get (world st1) OCCURRENCE_SEARCH_ENDPOINT
             (ps\<lparr>p_offset := Some off\<rparr>) = (r, w')"
      by force
    show ?thesis
    proof (cases r)
      case (Inl e)
      show ?thesis
      proof (cases "is_api_error e")
        case True
        then obtain m where "e = APIError m"
          by (cases e) (simp_all add: is_api_error_def)
        with mr Inl show ?thesis by (simp add: page_loop_api_error [OF p'])
      next
        case False
        with mr Inl show ?thesis by (simp add: page_loop_other_error [OF p'])
      qed
    next
      case (Inr data)
      with mr have mr': "make_request session_get (world st1) OCCURRENCE_SEARCH_ENDPOINT
             (ps\<lparr>p_offset := Some off\<rparr>) = (Inr data, w')"
        by simp
      note step = page_loop_response [OF p' mr', where self = self and cb = cb
          and tot = tot and yr = yr]
      show ?thesis
      proof (cases "last_page self off data")
        case True
        then show ?thesis unfolding step last_page_def by auto
      next
        case False
        then have lt: "off + page_size self < MAX_OFFSET" by (simp add: last_page_def)
        have "nat (MAX_OFFSET - (off + page_size self)) < nat (MAX_OFFSET - off)"
          using pos lt by simp
        from less [OF this] show ?thesis
          using False unfolding step last_page_def by simp
      qed
    qed
  qed
qed

lemma year_loop_returns:
  assumes pos: "0 < page_size self"
  shows "\<exists>res. year_loop session_get self sc cb tot mk yrs st = Some res"
proof (induction yrs arbitrary: st)
  case Nil
  show ?case by simp
next
  case (Cons yr yrs)
  obtain b st1 where p: "poll sc st = (b, st1)" by force
  obtain r st2 where
    pl: "page_loop session_get self sc cb tot yr (mk yr) 0
           (st1\<lparr>logged := logged st1 @ [ProcessingYear yr]\<rparr>) = Some (r, st2)"
    using page_loop_returns [OF pos] by fastforce
  show ?case
    using p pl Cons.IH [of st2] by (cases b; cases r) auto
qed

lemma iter_returns:
  assumes pos: "0 < page_size self"
  shows "\<exists>res. iter_occurrences_by_year session_get self w now tk y0 y1 bs hc cn cb sc = Some res"
proof (cases "count_occurrences session_get w tk bs hc None cn")
  case (Pair r w')
  show ?thesis
  proof (cases r)
    case (Inl e)
    with Pair show ?thesis by (simp add: iter_occurrences_by_year_def)
  next
    case (Inr tot)
    obtain q st where "year_loop session_get self sc cb tot (year_params self tk hc bs cn)
             [y0..(case y1 of None \<Rightarrow> now | Some y \<Rightarrow> y)]
             \<lparr>world = w', yielded = [], seen = {}, count = 0,
              logged = [EstimatedTotal tot], progress = []\<rparr> = Some (q, st)"
      using year_loop_returns [OF pos] by fastforce
    with Pair Inr show ?thesis
      by (cases q) (simp_all add: iter_occurrences_by_year_def)
  qed
qed

subsection \<open>Two pages of one year\<close>

lemma two_pages:
  assumes ps: "0 < page_size self" "page_size self \<le> 300"
    and r1: "make_request session_get (world st) OCCURRENCE_SEARCH_ENDPOINT
               (base\<lparr>p_offset := Some 0\<rparr>) = (Inr d1, w2)"
    and r2: "make_request session_get w2 OCCURRENCE_SEARCH_ENDPOINT
               (base\<lparr>p_offset := Some (page_size self)\<rparr>) = (Inr d2, w3)"
    and d1: "j_results d1 = Some rs1" "int (length rs1) = page_size self"
            "get_or (j_endOfRecords d1) False = False"
    and d2: "j_results d2 = Some rs2" "j_endOfRecords d2 = Some True"
  shows "page_loop session_get self None cb tot yr base 0 st =
           Some (None, yield_results cb tot yr rs2
                         (yield_results cb tot yr rs1 (st\<lparr>world := w2\<rparr>)\<lparr>world := w3\<rparr>))"
proof -
  have ne: "rs1 \<noteq> []" using ps(1) d1(2) by auto
  have g1: "get_or (j_results d1) [] = rs1" using d1(1) by (simp add: get_or_def)
  have g2: "get_or (j_results d2) [] = rs2" "get_or (j_endOfRecords d2) False"
    using d2 by (simp_all add: get_or_def)
  let ?st3 = "yield_results cb tot yr rs1 (st\<lparr>world := w2\<rparr>)"
  have s1: "page_loop session_get self None cb tot yr base 0 st
              = page_loop session_get self None cb tot yr base (0 + page_size self) ?st3"
    using page_loop_response [OF poll_None r1, where self = self and cb = cb and tot = tot and yr = yr]
      ne d1(2,3) ps(2) by (simp add: g1 MAX_OFFSET_def)
  have r2': "make_request session_get (world ?st3) OCCURRENCE_SEARCH_ENDPOINT
               (base\<lparr>p_offset := Some (0 + page_size self)\<rparr>) = (Inr d2, w3)"
    using r2 by simp
  have s2: "page_loop session_get self None cb tot yr base (0 + page_size self) ?st3
              = Some (None, yield_results cb tot yr rs2 (?st3\<lparr>world := w3\<rparr>))"
    using page_loop_response [OF poll_None r2', where self = self and cb = cb and tot = tot and yr = yr]
    by (cases rs2) (simp_all add: g2)
  show ?thesis using s1 s2 by simp
qed

lemma two_page_scenario:
  assumes ps: "0 < page_size self" "page_size self \<le> 300"
    and cnt: "count_occurrences session_get w0 tk bs hc None cn = (Inr tot, w1)"
    and r1: "make_request session_get w1 OCCURRENCE_SEARCH_ENDPOINT
               ((year_params self tk hc bs cn y)\<lparr>p_offset := Some 0\<rparr>) = (Inr d1, w2)"
    and r2: "make_request session_get w2 OCCURRENCE_SEARCH_ENDPOINT
               ((year_params self tk hc bs cn y)\<lparr>p_offset := Some (page_size self)\<rparr>)
               = (Inr d2, w3)"
    and d1: "j_results d1 = Some rs1" "int (length rs1) = page_size self"
            "get_or (j_endOfRecords d1) False = False"
    and d2: "j_results d2 = Some rs2" "j_endOfRecords d2 = Some True"
    and dist: "distinct (map key (rs1 @ rs2))"
  shows "\<exists>st. iter_occurrences_by_year session_get self w0 now tk y (Some y) bs hc cn cb None
                = Some (None, st) \<and>
              yielded st = rs1 @ rs2 \<and> world st = w3 \<and> count st = length rs1 + length rs2"
proof -
  let ?st0 = "\<lparr>world = w1, yielded = [], seen = {}, count = 0,
                logged = [EstimatedTotal tot], progress = []\<rparr>"
  let ?st1 = "?st0\<lparr>logged := logged ?st0 @ [ProcessingYear y]\<rparr>"
  let ?a = "yield_results cb tot y rs1 (?st1\<lparr>world := w2\<rparr>)"
  let ?b = "yield_results cb tot y rs2 (?a\<lparr>world := w3\<rparr>)"
  have r1': "make_request session_get (world ?st1) OCCURRENCE_SEARCH_ENDPOINT
               ((year_params self tk hc bs cn y)\<lparr>p_offset := Some 0\<rparr>) = (Inr d1, w2)"
    using r1 by simp
  have pl: "page_loop session_get self None cb tot y (year_params self tk hc bs cn y) 0 ?st1
              = Some (None, ?b)"
    by (rule two_pages [OF ps r1' r2 d1 d2])
  have f1: "fresh_items {} rs1 = rs1"
    using dist by (intro fresh_items_distinct) simp_all
  have f2: "fresh_items (key ` set rs1) rs2 = rs2"
    using dist by (intro fresh_items_distinct) auto
  have ya: "yielded ?a = rs1" "seen ?a = key ` set rs1" "count ?a = length rs1"
    by (simp_all add: yield_results_yielded yield_results_seen yield_results_count f1)
  have yb: "yielded ?b = rs1 @ rs2" "count ?b = length rs1 + length rs2" "world ?b = w3"
    by (simp_all add: yield_results_yielded yield_results_seen yield_results_count f1 f2)
  have "iter_occurrences_by_year session_get self w0 now tk y (Some y) bs hc cn cb None
          = Some (None, ?b\<lparr>logged := logged ?b @ [DownloadedUnique (count ?b)]\<rparr>)"
    using cnt pl by (simp add: iter_occurrences_by_year_def year_loop_single)
  then show ?thesis using yb by simp
qed

text \<open>
  The client with the default page size 300, and a mocked sequence of a count, a first page
  of two records that does not report end-of-records and a second page of one record that
  does: the first page is shorter than the page size, the loop stops after it, the second
  page is never requested and its record is not yielded.
\<close>

theorem two_page_counterexample:
  "iter_occurrences_by_year mock_session default_client mocked_answers 2026 1035566
       2020 (Some 2020) specimens True None False None
     = Some (None,
         \<lparr>world = [HttpResponse 200 second_page],
          yielded = [scenario_r1, scenario_r2], seen = {1, 2}, count = 2,
          logged = [EstimatedTotal 3, ProcessingYear 2020, DownloadedUnique 2],
          progress = []\<rparr>)"
proof -
  let ?base = "year_params default_client 1035566 True specimens None 2020"
  let ?st1 = "\<lparr>world = [HttpResponse 200 first_page, HttpResponse 200 second_page],
      yielded = [], seen = {}, count = 0,
      logged = [EstimatedTotal 3, ProcessingYear 2020], progress = []\<rparr>"
  have cnt: "count_occurrences mock_session mocked_answers 1035566 specimens True None None
               = (Inr 3, [HttpResponse 200 first_page, HttpResponse 200 second_page])"
    by (simp add: count_occurrences_def make_request_def mock_session_def mocked_answers_def
          count_json_def json_object_def get_or_def Let_def)
  have mr: "make_request mock_session (world ?st1) OCCURRENCE_SEARCH_ENDPOINT
              (?base\<lparr>p_offset := Some 0\<rparr>) = (Inr first_page, [HttpResponse 200 second_page])"
    by (simp add: make_request_def mock_session_def)
  have pl: "page_loop mock_session default_client None False 3 2020 ?base 0 ?st1
              = Some (None, yield_results False 3 2020 [scenario_r1, scenario_r2]
                              (?st1\<lparr>world := [HttpResponse 200 second_page]\<rparr>))"
    using page_loop_response [OF poll_None mr, where self = default_client and cb = False
        and tot = 3 and yr = 2020]
    by (simp add: first_page_def json_object_def get_or_def default_client_def
          GBIFClient_init_def DEFAULT_PAGE_SIZE_def)
  show ?thesis
    using cnt pl
    by (simp add: iter_occurrences_by_year_def year_loop_single scenario_r1_def scenario_r2_def
          blank_record_def insert_commute)
qed

text \<open>
  C1 (amended). For a single-year sequence of two pages of which the first is a full page
  (exactly page-size results, not reporting end-of-records) and the last reports
  \<open>endOfRecords=true\<close>, the keys of the two pages being pairwise distinct, the page size
  positive and no cancellation requested, \<open>iter_occurrences_by_year\<close> returns and yields
  exactly the records of the two pages, in page order. Every run of the generator yields
  pairwise distinct keys. Within a year (positive page size, no cancellation) the page loop
  returns, the offset starts at 0 and advances by the page size, and the loop stops exactly
  after the first request that fails or whose response reports end-of-records, returns
  fewer results than the page size, returns no results, or whose advanced offset reaches
  the ceiling of 100,000.
\<close>

theorem year_bucketed_fetch:
  "(0 < page_size self \<and> page_size self \<le> 300 \<and>
    count_occurrences session_get w0 tk bs hc None cn = (Inr tot, w1) \<and>
    make_request session_get w1 OCCURRENCE_SEARCH_ENDPOINT
      ((year_params self tk hc bs cn y)\<lparr>p_offset := Some 0\<rparr>) = (Inr d1, w2) \<and>
    make_request session_get w2 OCCURRENCE_SEARCH_ENDPOINT
      ((year_params self tk hc bs cn y)\<lparr>p_offset := Some (page_size self)\<rparr>) = (Inr d2, w3) \<and>
    j_results d1 = Some rs1 \<and> int (length rs1) = page_size self \<and>
    get_or (j_endOfRecords d1) False = False \<and>
    j_results d2 = Some rs2 \<and> j_endOfRecords d2 = Some True \<and>
    distinct (map key (rs1 @ rs2))
    \<longrightarrow> (\<exists>st. iter_occurrences_by_year session_get self w0 now tk y (Some y) bs hc cn cb None
                  = Some (None, st) \<and>
              yielded st = rs1 @ rs2 \<and> world st = w3 \<and> count st = length rs1 + length rs2)) \<and>
   (\<forall>r st. iter_occurrences_by_year session_get self w0 now tk y0 y1 bs hc cn cb sc = Some (r, st)
      \<longrightarrow> distinct (map key (yielded st))) \<and>
   (0 < page_size self \<longrightarrow>
      (\<exists>r st' tr.
         year_loop (traced session_get) self None cb tot' mk [yr] st0 = Some (r, st') \<and>
         snd (world st') = snd (world st0) @ tr \<and> page_protocol self (mk yr) 0 tr))"
proof (intro conjI impI allI)
  assume "0 < page_size self \<and> page_size self \<le> 300 \<and>
    count_occurrences session_get w0 tk bs hc None cn = (Inr tot, w1) \<and>
    make_request session_get w1 OCCURRENCE_SEARCH_ENDPOINT
      ((year_params self tk hc bs cn y)\<lparr>p_offset := Some 0\<rparr>) = (Inr d1, w2) \<and>
    make_request session_get w2 OCCURRENCE_SEARCH_ENDPOINT
      ((year_params self tk hc bs cn y)\<lparr>p_offset := Some (page_size self)\<rparr>) = (Inr d2, w3) \<and>
    j_results d1 = Some rs1 \<and> int (length rs1) = page_size self \<and>
    get_or (j_endOfRecords d1) False = False \<and>
    j_results d2 = Some rs2 \<and> j_endOfRecords d2 = Some True \<and>
    distinct (map key (rs1 @ rs2))"
  then show "\<exists>st. iter_occurrences_by_year session_get self w0 now tk y (Some y) bs hc cn cb None
                  = Some (None, st) \<and>
              yielded st = rs1 @ rs2 \<and> world st = w3 \<and> count st = length rs1 + length rs2"
    using two_page_scenario [of self session_get w0 tk bs hc cn tot w1 y d1 w2 d2 w3 rs1 rs2 now cb]
    by blast
next
  fix r st
  assume "iter_occurrences_by_year session_get self w0 now tk y0 y1 bs hc cn cb sc = Some (r, st)"
  then show "distinct (map key (yielded st))"
    using iter_unique unique_keys_distinct by fastforce
next
  assume "0 < page_size self"
  then show "\<exists>r st' tr.
         year_loop (traced session_get) self None cb tot' mk [yr] st0 = Some (r, st') \<and>
         snd (world st') = snd (world st0) @ tr \<and> page_protocol self (mk yr) 0 tr"
    by (rule year_loop_protocol)
qed

theorem year_bucketed_fetch_witness:
  "(\<exists>st. iter_occurrences_by_year mock_session small_client mocked_answers 2026 1035566
            2020 (Some 2020) specimens True None False None = Some (None, st) \<and>
         yielded st = [scenario_r1, scenario_r2, scenario_r3] \<and> world st = [] \<and>
         count st = 3) \<and>
   (\<exists>r st' tr.
      year_loop (traced mock_session) small_client None False 3
          (year_params small_client 1035566 True specimens None) [2020]
          \<lparr>world = (tl mocked_answers, []), yielded = [], seen = {}, count = 0,
           logged = [EstimatedTotal 3], progress = []\<rparr> = Some (r, st') \<and>
      snd (world st') = tr \<and>
      page_protocol small_client (year_params small_client 1035566 True specimens None 2020) 0 tr)"
proof -
  let ?base = "year_params small_client 1035566 True specimens None 2020"
  have ps: "page_size small_client = 2"
    by (simp add: small_client_def GBIFClient_init_def)
  have h: "0 < page_size small_client \<and> page_size small_client \<le> 300 \<and>
    count_occurrences mock_session mocked_answers 1035566 specimens True None None
      = (Inr 3, [HttpResponse 200 first_page, HttpResponse 200 second_page]) \<and>
    make_request mock_session [HttpResponse 200 first_page, HttpResponse 200 second_page]
      OCCURRENCE_SEARCH_ENDPOINT (?base\<lparr>p_offset := Some 0\<rparr>)
      = (Inr first_page, [HttpResponse 200 second_page]) \<and>
    make_request mock_session [HttpResponse 200 second_page]
      OCCURRENCE_SEARCH_ENDPOINT (?base\<lparr>p_offset := Some (page_size small_client)\<rparr>)
      = (Inr second_page, []) \<and>
    j_results first_page = Some [scenario_r1, scenario_r2] \<and>
    int (length [scenario_r1, scenario_r2]) = page_size small_client \<and>
    get_or (j_endOfRecords first_page) False = False \<and>
    j_results second_page = Some [scenario_r3] \<and> j_endOfRecords second_page = Some True \<and>
    distinct (map key ([scenario_r1, scenario_r2] @ [scenario_r3]))"
    by (simp add: ps count_occurrences_def make_request_def mock_session_def mocked_answers_def
          count_json_def first_page_def second_page_def json_object_def get_or_def Let_def
          scenario_r1_def scenario_r2_def scenario_r3_def)
  have pos: "0 < page_size small_client" by (simp add: ps)
  have a: "\<exists>st. iter_occurrences_by_year mock_session small_client mocked_answers 2026 1035566
            2020 (Some 2020) specimens True None False None = Some (None, st) \<and>
         yielded st = [scenario_r1, scenario_r2, scenario_r3] \<and> world st = [] \<and>
         count st = 3"
    using year_bucketed_fetch [where now = 2026 and cb = False, THEN conjunct1, THEN mp, OF h]
    by (simp add: eval_nat_numeral)
  have b: "\<exists>r st' tr.
      year_loop (traced mock_session) small_client None False 3
          (year_params small_client 1035566 True specimens None) [2020]
          \<lparr>world = (tl mocked_answers, []), yielded = [], seen = {}, count = 0,
           logged = [EstimatedTotal 3], progress = []\<rparr> = Some (r, st') \<and>
      snd (world st') = tr \<and>
      page_protocol small_client (year_params small_client 1035566 True specimens None 2020) 0 tr"
    using year_bucketed_fetch [where session_get = mock_session and cb = False and tot' = 3
          and mk = "year_params small_client 1035566 True specimens None" and yr = 2020
          and ?st0.0 = "\<lparr>world = (tl mocked_answers, []), yielded = [], seen = {}, count = 0,
                          logged = [EstimatedTotal 3], progress = []\<rparr>",
        THEN conjunct2, THEN conjunct2, THEN mp, OF pos]
    by simp
  from a b show ?thesis by blast
qed

subsection \<open>Containment of the errors of a year\<close>

lemma failing_pages_count:
  "count_occurrences failing_pages () 1035566 specimens True None None = (Inr 3, ())"
  by (simp add: count_occurrences_def make_request_def failing_pages_def count_json_def
        json_object_def get_or_def Let_def)

lemma failing_pages_request:
  "make_request failing_pages w OCCURRENCE_SEARCH_ENDPOINT
     ((year_params default_client 1035566 True specimens None yr)\<lparr>p_offset := Some off\<rparr>)
     = (Inl unreachable, w)"
  by (simp add: make_request_def failing_pages_def year_params_def default_client_def
        GBIFClient_init_def DEFAULT_PAGE_SIZE_def specimens_def truthy_basis_def truthy_str_def
        no_params_def unreachable_def Let_def)

lemma failing_pages_year:
  "page_loop failing_pages default_client None cb tot yr
     (year_params default_client 1035566 True specimens None yr) 0 st
     = Some (None, st\<lparr>world := (), logged := logged st @ [ErrorFetchingYear yr unreachable]\<rparr>)"
proof -
  have "make_request failing_pages (world st) OCCURRENCE_SEARCH_ENDPOINT
          ((year_params default_client 1035566 True specimens None yr)\<lparr>p_offset := Some 0\<rparr>)
          = (Inl (APIError ''Connection error: unreachable''), ())"
    using failing_pages_request [where w = "world st" and yr = yr and off = 0]
    by (simp add: unreachable_def)
  from page_loop_api_error [OF poll_None this] show ?thesis
    by (simp add: unreachable_def)
qed

text \<open>
  The count succeeds and every page request fails with a connection error, for the years
  2020 and 2021: the generator yields nothing and ends normally. Both errors are logged;
  none is raised to the caller.
\<close>

theorem zero_records_counterexample:
  "iter_occurrences_by_year failing_pages default_client () 2026 1035566
       2020 (Some 2021) specimens True None False None
     = Some (None,
         \<lparr>world = (), yielded = [], seen = {}, count = 0,
          logged = [EstimatedTotal 3,
                    ProcessingYear 2020, ErrorFetchingYear 2020 unreachable,
                    ProcessingYear 2021, ErrorFetchingYear 2021 unreachable,
                    DownloadedUnique 0],
          progress = []\<rparr>)"
proof -
  have years: "[2020..2021] = [2020, 2021 :: int]" by (simp add: upto.simps)
  show ?thesis
    by (simp add: iter_occurrences_by_year_def failing_pages_count years failing_pages_year)
qed

lemma page_loop_last_page:
  assumes "poll stop_check st = (False, st1)"
    and "make_request session_get (world st1) OCCURRENCE_SEARCH_ENDPOINT
           (ps\<lparr>p_offset := Some off\<rparr>) = (Inr data, w')"
    and "j_results data = Some rs" and "rs \<noteq> []"
    and "get_or (j_endOfRecords data) False \<or> int (length rs) < page_size self"
  shows "page_loop session_get self stop_check cb tot yr ps off st
           = Some (None, yield_results cb tot yr rs (st1\<lparr>world := w'\<rparr>))"
proof -
  have g: "get_or (j_results data) [] = rs" using assms(3) by (simp add: get_or_def)
  show ?thesis
    using page_loop_response [OF assms(1,2), where self = self and cb = cb and tot = tot
        and yr = yr] assms(4,5)
    by (simp add: g)
qed

lemma upto_pair: "[y..y + 1] = [y, y + 1]"
  by (simp add: upto.simps)

text \<open>
  The first of two years fails at its first page request and the second answers one last
  page; and the other way round. In both runs the records of the page are yielded.
\<close>

lemma failed_then_fetched:
  assumes cnt: "count_occurrences session_get w0 tk bs hc None cn = (Inr tot, w1)"
    and r1: "make_request session_get w1 OCCURRENCE_SEARCH_ENDPOINT
               ((year_params self tk hc bs cn y)\<lparr>p_offset := Some 0\<rparr>)
               = (Inl (APIError m), w2)"
    and r2: "make_request session_get w2 OCCURRENCE_SEARCH_ENDPOINT
               ((year_params self tk hc bs cn (y + 1))\<lparr>p_offset := Some 0\<rparr>) = (Inr d, w3)"
    and d: "j_results d = Some rs" "rs \<noteq> []"
           "get_or (j_endOfRecords d) False \<or> int (length rs) < page_size self"
    and dist: "distinct (map key rs)"
  shows "\<exists>st. iter_occurrences_by_year session_get self w0 now tk y (Some (y + 1)) bs hc cn cb
                  None = Some (None, st) \<and>
              yielded st = rs \<and> world st = w3 \<and> count st = length rs \<and>
              logged st = [EstimatedTotal tot, ProcessingYear y,
                           ErrorFetchingYear y (APIError m), ProcessingYear (y + 1),
                           DownloadedUnique (length rs)]"
proof -
  let ?mk = "year_params self tk hc bs cn"
  let ?st0 = "\<lparr>world = w1, yielded = [], seen = {}, count = 0,
                logged = [EstimatedTotal tot], progress = []\<rparr>"
  let ?st1 = "?st0\<lparr>logged := logged ?st0 @ [ProcessingYear y]\<rparr>"
  let ?st2 = "?st1\<lparr>world := w2, logged := logged ?st1 @ [ErrorFetchingYear y (APIError m)]\<rparr>"
  let ?st3 = "?st2\<lparr>logged := logged ?st2 @ [ProcessingYear (y + 1)]\<rparr>"
  let ?b = "yield_results cb tot (y + 1) rs (?st3\<lparr>world := w3\<rparr>)"
  have r1': "make_request session_get (world ?st1) OCCURRENCE_SEARCH_ENDPOINT
               ((?mk y)\<lparr>p_offset := Some 0\<rparr>) = (Inl (APIError m), w2)"
    using r1 by simp
  have p1: "page_loop session_get self None cb tot y (?mk y) 0 ?st1 = Some (None, ?st2)"
    by (rule page_loop_api_error [OF poll_None r1'])
  have r2': "make_request session_get (world ?st3) OCCURRENCE_SEARCH_ENDPOINT
               ((?mk (y + 1))\<lparr>p_offset := Some 0\<rparr>) = (Inr d, w3)"
    using r2 by simp
  have p2: "page_loop session_get self None cb tot (y + 1) (?mk (y + 1)) 0 ?st3
              = Some (None, ?b)"
    by (rule page_loop_last_page [OF poll_None r2' d])
  have f: "fresh_items {} rs = rs"
    using dist by (intro fresh_items_distinct) simp_all
  have yb: "yielded ?b = rs" "count ?b = length rs" "world ?b = w3"
    "logged ?b = [EstimatedTotal tot, ProcessingYear y, ErrorFetchingYear y (APIError m),
                  ProcessingYear (y + 1)]"
    by (simp_all add: yield_results_yielded yield_results_count f)
  have yl: "year_loop session_get self None cb tot ?mk [y, y + 1] ?st0 = Some (None, ?b)"
    using p1 p2 by simp
  have "iter_occurrences_by_year session_get self w0 now tk y (Some (y + 1)) bs hc cn cb None
          = Some (None, ?b\<lparr>logged := logged ?b @ [DownloadedUnique (count ?b)]\<rparr>)"
    using cnt yl by (simp add: iter_occurrences_by_year_def upto_pair)
  then show ?thesis using yb by simp
qed

lemma fetched_then_failed:
  assumes cnt: "count_occurrences session_get w0 tk bs hc None cn = (Inr tot, w1)"
    and r1: "make_request session_get w1 OCCURRENCE_SEARCH_ENDPOINT
               ((year_params self tk hc bs cn y)\<lparr>p_offset := Some 0\<rparr>) = (Inr d, w2)"
    and r2: "make_request session_get w2 OCCURRENCE_SEARCH_ENDPOINT
               ((year_params self tk hc bs cn (y + 1))\<lparr>p_offset := Some 0\<rparr>)
               = (Inl (APIError m), w3)"
    and d: "j_results d = Some rs" "rs \<noteq> []"
           "get_or (j_endOfRecords d) False \<or> int (length rs) < page_size self"
    and dist: "distinct (map key rs)"
  shows "\<exists>st. iter_occurrences_by_year session_get self w0 now tk y (Some (y + 1)) bs hc cn cb
                  None = Some (None, st) \<and>
              yielded st = rs \<and> world st = w3 \<and> count st = length rs \<and>
              logged st = [EstimatedTotal tot, ProcessingYear y, ProcessingYear (y + 1),
                           ErrorFetchingYear (y + 1) (APIError m),
                           DownloadedUnique (length rs)]"
proof -
  let ?mk = "year_params self tk hc bs cn"
  let ?st0 = "\<lparr>world = w1, yielded = [], seen = {}, count = 0,
                logged = [EstimatedTotal tot], progress = []\<rparr>"
  let ?st1 = "?st0\<lparr>logged := logged ?st0 @ [ProcessingYear y]\<rparr>"
  let ?a = "yield_results cb tot y rs (?st1\<lparr>world := w2\<rparr>)"
  let ?st3 = "?a\<lparr>logged := logged ?a @ [ProcessingYear (y + 1)]\<rparr>"
  let ?b = "?st3\<lparr>world := w3,
                  logged := logged ?st3 @ [ErrorFetchingYear (y + 1) (APIError m)]\<rparr>"
  have r1': "make_request session_get (world ?st1) OCCURRENCE_SEARCH_ENDPOINT
               ((?mk y)\<lparr>p_offset := Some 0\<rparr>) = (Inr d, w2)"
    using r1 by simp
  have p1: "page_loop session_get self None cb tot y (?mk y) 0 ?st1 = Some (None, ?a)"
    by (rule page_loop_last_page [OF poll_None r1' d])
  have r2': "make_request session_get (world ?st3) OCCURRENCE_SEARCH_ENDPOINT
               ((?mk (y + 1))\<lparr>p_offset := Some 0\<rparr>) = (Inl (APIError m), w3)"
    using r2 by simp
  have p2: "page_loop session_get self None cb tot (y + 1) (?mk (y + 1)) 0 ?st3
              = Some (None, ?b)"
    by (rule page_loop_api_error [OF poll_None r2'])
  have f: "fresh_items {} rs = rs"
    using dist by (intro fresh_items_distinct) simp_all
  have yb: "yielded ?b = rs" "count ?b = length rs" "world ?b = w3"
    "logged ?b = [EstimatedTotal tot, ProcessingYear y, ProcessingYear (y + 1),
                  ErrorFetchingYear (y + 1) (APIError m)]"
    by (simp_all add: yield_results_yielded yield_results_count f)
  have yl: "year_loop session_get self None cb tot ?mk [y, y + 1] ?st0 = Some (None, ?b)"
    using p1 p2 by simp
  have "iter_occurrences_by_year session_get self w0 now tk y (Some (y + 1)) bs hc cn cb None
          = Some (None, ?b\<lparr>logged := logged ?b @ [DownloadedUnique (count ?b)]\<rparr>)"
    using cnt yl by (simp add: iter_occurrences_by_year_def upto_pair)
  then show ?thesis using yb by simp
qed

text \<open>
  C2 (amended). If a page request during some year raises \<open>APIError\<close>,
  \<open>iter_occurrences_by_year\<close> abandons only that year: the page loop of the year ends
  normally with the error logged and nothing else changed, so what was yielded before stays
  yielded; the page loop never ends with an \<open>APIError\<close>; the year loop goes on with the
  subsequent years whenever the page loop of a year ends normally; and a page received
  afterwards is yielded as it would be otherwise, whatever has been logged: when the first
  of two years fails and the second answers a page, and when the first answers a page and
  the second fails, the run ends normally having yielded the records of that page, with the
  error in the log. An \<open>APIError\<close> of a page request is only logged: once the count
  request has succeeded, the generator never raises an \<open>APIError\<close> to its caller, also
  when the entire run yields zero records. With a positive page size the generator always
  returns.
\<close>

theorem error_containment:
  "(poll stop_check st = (False, st1) \<and>
    make_request session_get (world st1) OCCURRENCE_SEARCH_ENDPOINT (ps\<lparr>p_offset := Some off\<rparr>)
      = (Inl (APIError m), w')
    \<longrightarrow> page_loop session_get self stop_check cb tot yr ps off st
          = Some (None, st1\<lparr>world := w',
                               logged := logged st1 @ [ErrorFetchingYear yr (APIError m)]\<rparr>)) \<and>
   (\<forall>res e. page_loop session_get self stop_check cb tot yr ps off st = Some res \<and>
      fst res = Some e \<longrightarrow> \<not> is_api_error e) \<and>
   (\<forall>res. page_loop session_get self stop_check cb tot yr ps off st = Some res
      \<longrightarrow> (\<exists>ys. yielded (snd res) = yielded st @ ys)) \<and>
   (poll stop_check st = (False, st1) \<and>
    page_loop session_get self stop_check cb tot yr (mk yr) 0
      (st1\<lparr>logged := logged st1 @ [ProcessingYear yr]\<rparr>) = Some (None, st2)
    \<longrightarrow> year_loop session_get self stop_check cb tot mk (yr # yrs) st
          = year_loop session_get self stop_check cb tot mk yrs st2) \<and>
   (\<forall>e st'. count_occurrences session_get w0 tk bs hc None cn = (Inr tot, w1) \<and>
      iter_occurrences_by_year session_get self w0 now tk y0 y1 bs hc cn cb stop_check
        = Some (Some e, st')
      \<longrightarrow> \<not> is_api_error e) \<and>
   (0 < page_size self \<longrightarrow>
      (\<exists>res. iter_occurrences_by_year session_get self w0 now tk y0 y1 bs hc cn cb stop_check
               = Some res)) \<and>
   (poll stop_check st = (False, st1) \<and>
    make_request session_get (world st1) OCCURRENCE_SEARCH_ENDPOINT (ps\<lparr>p_offset := Some off\<rparr>)
      = (Inr data, w') \<and>
    j_results data = Some rs \<and> rs \<noteq> [] \<and>
    (get_or (j_endOfRecords data) False \<or> int (length rs) < page_size self)
    \<longrightarrow> (\<exists>st'. page_loop session_get self stop_check cb tot yr ps off st = Some (None, st') \<and>
               yielded st' = yielded st @ fresh_items (seen st) rs \<and>
               logged st' = logged st)) \<and>
   (count_occurrences session_get w0 tk bs hc None cn = (Inr tot, w1) \<and>
    make_request session_get w1 OCCURRENCE_SEARCH_ENDPOINT
      ((year_params self tk hc bs cn y)\<lparr>p_offset := Some 0\<rparr>) = (Inl (APIError m), w2) \<and>
    make_request session_get w2 OCCURRENCE_SEARCH_ENDPOINT
      ((year_params self tk hc bs cn (y + 1))\<lparr>p_offset := Some 0\<rparr>) = (Inr data, w3) \<and>
    j_results data = Some rs \<and> rs \<noteq> [] \<and>
    (get_or (j_endOfRecords data) False \<or> int (length rs) < page_size self) \<and>
    distinct (map key rs)
    \<longrightarrow> (\<exists>st'. iter_occurrences_by_year session_get self w0 now tk y (Some (y + 1)) bs hc cn
                 cb None = Some (None, st') \<and>
               yielded st' = rs \<and> world st' = w3 \<and> count st' = length rs \<and>
               logged st' = [EstimatedTotal tot, ProcessingYear y,
                             ErrorFetchingYear y (APIError m), ProcessingYear (y + 1),
                             DownloadedUnique (length rs)])) \<and>
   (count_occurrences session_get w0 tk bs hc None cn = (Inr tot, w1) \<and>
    make_request session_get w1 OCCURRENCE_SEARCH_ENDPOINT
      ((year_params self tk hc bs cn y)\<lparr>p_offset := Some 0\<rparr>) = (Inr data, w2) \<and>
    make_request session_get w2 OCCURRENCE_SEARCH_ENDPOINT
      ((year_params self tk hc bs cn (y + 1))\<lparr>p_offset := Some 0\<rparr>) = (Inl (APIError m), w3) \<and>
    j_results data = Some rs \<and> rs \<noteq> [] \<and>
    (get_or (j_endOfRecords data) False \<or> int (length rs) < page_size self) \<and>
    distinct (map key rs)
    \<longrightarrow> (\<exists>st'. iter_occurrences_by_year session_get self w0 now tk y (Some (y + 1)) bs hc cn
                 cb None = Some (None, st') \<and>
               yielded st' = rs \<and> world st' = w3 \<and> count st' = length rs \<and>
               logged st' = [EstimatedTotal tot, ProcessingYear y, ProcessingYear (y + 1),
                             ErrorFetchingYear (y + 1) (APIError m),
                             DownloadedUnique (length rs)]))"
proof -
  have c1: "page_loop session_get self stop_check cb tot yr ps off st
          = Some (None, st1\<lparr>world := w',
                               logged := logged st1 @ [ErrorFetchingYear yr (APIError m)]\<rparr>)"
    if "poll stop_check st = (False, st1) \<and>
        make_request session_get (world st1) OCCURRENCE_SEARCH_ENDPOINT
          (ps\<lparr>p_offset := Some off\<rparr>) = (Inl (APIError m), w')"
    by (rule page_loop_api_error [OF that [THEN conjunct1] that [THEN conjunct2]])
  have c2: "\<not> is_api_error e"
    if "page_loop session_get self stop_check cb tot yr ps off st = Some res \<and> fst res = Some e"
    for res e
    using page_loop_no_api_error [OF that [THEN conjunct1]] that by simp
  have c3: "\<exists>ys. yielded (snd res) = yielded st @ ys"
    if "page_loop session_get self stop_check cb tot yr ps off st = Some res" for res
    using that by (rule page_loop_extends)
  have c4: "year_loop session_get self stop_check cb tot mk (yr # yrs) st
          = year_loop session_get self stop_check cb tot mk yrs st2"
    if "poll stop_check st = (False, st1) \<and>
        page_loop session_get self stop_check cb tot yr (mk yr) 0
          (st1\<lparr>logged := logged st1 @ [ProcessingYear yr]\<rparr>) = Some (None, st2)"
    using that by simp
  have c5: "\<not> is_api_error e"
    if "count_occurrences session_get w0 tk bs hc None cn = (Inr tot, w1) \<and>
        iter_occurrences_by_year session_get self w0 now tk y0 y1 bs hc cn cb stop_check
          = Some (Some e, st')" for e st'
    by (rule iter_no_api_error [OF that [THEN conjunct1] that [THEN conjunct2]])
  have c6: "\<exists>res. iter_occurrences_by_year session_get self w0 now tk y0 y1 bs hc cn cb
                      stop_check = Some res"
    if "0 < page_size self"
    using that by (rule iter_returns)
  have c7: "\<exists>st'. page_loop session_get self stop_check cb tot yr ps off st = Some (None, st') \<and>
               yielded st' = yielded st @ fresh_items (seen st) rs \<and> logged st' = logged st"
    if h: "poll stop_check st = (False, st1) \<and>
        make_request session_get (world st1) OCCURRENCE_SEARCH_ENDPOINT
          (ps\<lparr>p_offset := Some off\<rparr>) = (Inr data, w') \<and>
        j_results data = Some rs \<and> rs \<noteq> [] \<and>
        (get_or (j_endOfRecords data) False \<or> int (length rs) < page_size self)"
  proof -
    have p: "poll stop_check st = (False, st1)" using h by simp
    have q: "yielded st1 = yielded st" "seen st1 = seen st" "logged st1 = logged st"
      using poll_fields [of stop_check st] p by simp_all
    have r: "make_request session_get (world st1) OCCURRENCE_SEARCH_ENDPOINT
               (ps\<lparr>p_offset := Some off\<rparr>) = (Inr data, w')"
      and d: "j_results data = Some rs" "rs \<noteq> []"
        "get_or (j_endOfRecords data) False \<or> int (length rs) < page_size self"
      using h by blast+
    have "page_loop session_get self stop_check cb tot yr ps off st
            = Some (None, yield_results cb tot yr rs (st1\<lparr>world := w'\<rparr>))"
      by (rule page_loop_last_page [OF p r d])
    then show ?thesis by (simp add: yield_results_yielded q)
  qed
  have c8: "\<exists>st'. iter_occurrences_by_year session_get self w0 now tk y (Some (y + 1)) bs hc cn
                 cb None = Some (None, st') \<and>
               yielded st' = rs \<and> world st' = w3 \<and> count st' = length rs \<and>
               logged st' = [EstimatedTotal tot, ProcessingYear y,
                             ErrorFetchingYear y (APIError m), ProcessingYear (y + 1),
                             DownloadedUnique (length rs)]"
    if h: "count_occurrences session_get w0 tk bs hc None cn = (Inr tot, w1) \<and>
      make_request session_get w1 OCCURRENCE_SEARCH_ENDPOINT
        ((year_params self tk hc bs cn y)\<lparr>p_offset := Some 0\<rparr>) = (Inl (APIError m), w2) \<and>
      make_request session_get w2 OCCURRENCE_SEARCH_ENDPOINT
        ((year_params self tk hc bs cn (y + 1))\<lparr>p_offset := Some 0\<rparr>) = (Inr data, w3) \<and>
      j_results data = Some rs \<and> rs \<noteq> [] \<and>
      (get_or (j_endOfRecords data) False \<or> int (length rs) < page_size self) \<and>
      distinct (map key rs)"
  proof -
    have cnt: "count_occurrences session_get w0 tk bs hc None cn = (Inr tot, w1)"
      and r1: "make_request session_get w1 OCCURRENCE_SEARCH_ENDPOINT
        ((year_params self tk hc bs cn y)\<lparr>p_offset := Some 0\<rparr>) = (Inl (APIError m), w2)"
      and r2: "make_request session_get w2 OCCURRENCE_SEARCH_ENDPOINT
        ((year_params self tk hc bs cn (y + 1))\<lparr>p_offset := Some 0\<rparr>) = (Inr data, w3)"
      and d: "j_results data = Some rs" "rs \<noteq> []"
        "get_or (j_endOfRecords data) False \<or> int (length rs) < page_size self"
      and dist: "distinct (map key rs)"
      using h by blast+
    show ?thesis by (rule failed_then_fetched [OF cnt r1 r2 d dist])
  qed
  have c9: "\<exists>st'. iter_occurrences_by_year session_get self w0 now tk y (Some (y + 1)) bs hc cn
                 cb None = Some (None, st') \<and>
               yielded st' = rs \<and> world st' = w3 \<and> count st' = length rs \<and>
               logged st' = [EstimatedTotal tot, ProcessingYear y, ProcessingYear (y + 1),
                             ErrorFetchingYear (y + 1) (APIError m),
                             DownloadedUnique (length rs)]"
    if h: "count_occurrences session_get w0 tk bs hc None cn = (Inr tot, w1) \<and>
      make_request session_get w1 OCCURRENCE_SEARCH_ENDPOINT
        ((year_params self tk hc bs cn y)\<lparr>p_offset := Some 0\<rparr>) = (Inr data, w2) \<and>
      make_request session_get w2 OCCURRENCE_SEARCH_ENDPOINT
        ((year_params self tk hc bs cn (y + 1))\<lparr>p_offset := Some 0\<rparr>)
        = (Inl (APIError m), w3) \<and>
      j_results data = Some rs \<and> rs \<noteq> [] \<and>
      (get_or (j_endOfRecords data) False \<or> int (length rs) < page_size self) \<and>
      distinct (map key rs)"
  proof -
    have cnt: "count_occurrences session_get w0 tk bs hc None cn = (Inr tot, w1)"
      and r1: "make_request session_get w1 OCCURRENCE_SEARCH_ENDPOINT
        ((year_params self tk hc bs cn y)\<lparr>p_offset := Some 0\<rparr>) = (Inr data, w2)"
      and r2: "make_request session_get w2 OCCURRENCE_SEARCH_ENDPOINT
        ((year_params self tk hc bs cn (y + 1))\<lparr>p_offset := Some 0\<rparr>)
        = (Inl (APIError m), w3)"
      and d: "j_results data = Some rs" "rs \<noteq> []"
        "get_or (j_endOfRecords data) False \<or> int (length rs) < page_size self"
      and dist: "distinct (map key rs)"
      using h by blast+
    show ?thesis by (rule fetched_then_failed [OF cnt r1 r2 d dist])
  qed
  show ?thesis
    by (intro conjI impI allI) (fact c1 c2 c3 c4 c5 c6 c7 c8 c9)+
qed

lemma rate_limited_count:
  "count_occurrences rate_limited_pages () 1035566 specimens True None None = (Inr 3, ())"
  by (simp add: count_occurrences_def make_request_def rate_limited_pages_def count_json_def
        json_object_def get_or_def Let_def)

lemma rate_limited_year:
  "page_loop rate_limited_pages default_client None cb tot yr
     (year_params default_client 1035566 True specimens None yr) 0 st
     = Some (Some rate_limit, st\<lparr>world := ()\<rparr>)"
proof -
  have "make_request rate_limited_pages (world st) OCCURRENCE_SEARCH_ENDPOINT
          ((year_params default_client 1035566 True specimens None yr)\<lparr>p_offset := Some 0\<rparr>)
          = (Inl rate_limit, ())"
    by (simp add: make_request_def rate_limited_pages_def year_params_def default_client_def
          GBIFClient_init_def DEFAULT_PAGE_SIZE_def specimens_def truthy_basis_def
          truthy_str_def no_params_def rate_limit_def Let_def)
  from page_loop_other_error [OF poll_None this] show ?thesis
    by (simp add: rate_limit_def is_api_error_def)
qed

lemma rate_limited_run:
  "iter_occurrences_by_year rate_limited_pages default_client () 2026 1035566
       2020 (Some 2021) specimens True None False None
     = Some (Some rate_limit,
             fetch_start\<lparr>logged := [EstimatedTotal 3, ProcessingYear 2020]\<rparr>)"
proof -
  have years: "[2020..2021] = [2020, 2021 :: int]" by (simp add: upto.simps)
  show ?thesis
    by (simp add: iter_occurrences_by_year_def rate_limited_count years rate_limited_year
          fetch_start_def)
qed

lemma first_year_fails_requests:
  "count_occurrences first_year_fails () 1035566 specimens True None None = (Inr 3, ())"
  "make_request first_year_fails w OCCURRENCE_SEARCH_ENDPOINT
     ((year_params default_client 1035566 True specimens None 2020)\<lparr>p_offset := Some 0\<rparr>)
     = (Inl (APIError ''Connection error: unreachable''), w)"
  "make_request first_year_fails w OCCURRENCE_SEARCH_ENDPOINT
     ((year_params default_client 1035566 True specimens None 2021)\<lparr>p_offset := Some 0\<rparr>)
     = (Inr second_page, w)"
  by (simp_all add: count_occurrences_def make_request_def first_year_fails_def count_json_def
        json_object_def get_or_def year_params_def default_client_def GBIFClient_init_def
        DEFAULT_PAGE_SIZE_def specimens_def truthy_basis_def truthy_str_def no_params_def
        Let_def)

lemma later_years_fail_requests:
  "count_occurrences later_years_fail () 1035566 specimens True None None = (Inr 3, ())"
  "make_request later_years_fail w OCCURRENCE_SEARCH_ENDPOINT
     ((year_params default_client 1035566 True specimens None 2020)\<lparr>p_offset := Some 0\<rparr>)
     = (Inr second_page, w)"
  "make_request later_years_fail w OCCURRENCE_SEARCH_ENDPOINT
     ((year_params default_client 1035566 True specimens None 2021)\<lparr>p_offset := Some 0\<rparr>)
     = (Inl (APIError ''Connection error: unreachable''), w)"
  by (simp_all add: count_occurrences_def make_request_def later_years_fail_def count_json_def
        json_object_def get_or_def year_params_def default_client_def GBIFClient_init_def
        DEFAULT_PAGE_SIZE_def specimens_def truthy_basis_def truthy_str_def no_params_def
        Let_def)

lemma second_page_fields:
  "j_results second_page = Some [scenario_r3]"
  "get_or (j_endOfRecords second_page) False"
  by (simp_all add: second_page_def json_object_def get_or_def)

theorem error_containment_witness:
  "page_loop failing_pages default_client None False 3 2020
     (year_params default_client 1035566 True specimens None 2020) 0 fetch_start
     = Some (None, fetch_start\<lparr>world := (),
               logged := logged fetch_start @ [ErrorFetchingYear 2020 unreachable]\<rparr>) \<and>
   year_loop failing_pages default_client None False 3
       (year_params default_client 1035566 True specimens None) [2020, 2021] fetch_start
     = year_loop failing_pages default_client None False 3
         (year_params default_client 1035566 True specimens None) [2021]
         (fetch_start\<lparr>logged := [EstimatedTotal 3, ProcessingYear 2020,
                                   ErrorFetchingYear 2020 unreachable]\<rparr>) \<and>
   \<not> is_api_error rate_limit \<and>
   (\<exists>res. iter_occurrences_by_year failing_pages default_client () 2026 1035566
            2020 (Some 2021) specimens True None False None = Some res) \<and>
   (\<exists>st. page_loop first_year_fails default_client None False 3 2021
            (year_params default_client 1035566 True specimens None 2021) 0
            (fetch_start\<lparr>logged := [EstimatedTotal 3, ProcessingYear 2020,
                                      ErrorFetchingYear 2020 unreachable,
                                      ProcessingYear 2021]\<rparr>) = Some (None, st) \<and>
          yielded st = [scenario_r3]) \<and>
   (\<exists>st. iter_occurrences_by_year first_year_fails default_client () 2026 1035566
            2020 (Some 2021) specimens True None False None = Some (None, st) \<and>
          yielded st = [scenario_r3] \<and>
          logged st = [EstimatedTotal 3, ProcessingYear 2020,
                       ErrorFetchingYear 2020 unreachable, ProcessingYear 2021,
                       DownloadedUnique 1]) \<and>
   (\<exists>st. iter_occurrences_by_year later_years_fail default_client () 2026 1035566
            2020 (Some 2021) specimens True None False None = Some (None, st) \<and>
          yielded st = [scenario_r3] \<and>
          logged st = [EstimatedTotal 3, ProcessingYear 2020, ProcessingYear 2021,
                       ErrorFetchingYear 2021 unreachable, DownloadedUnique 1])"
proof -
  let ?mk = "year_params default_client 1035566 True specimens None"
  have p: "poll None fetch_start = (False, fetch_start)" by simp
  have r: "make_request failing_pages (world fetch_start) OCCURRENCE_SEARCH_ENDPOINT
             ((?mk 2020)\<lparr>p_offset := Some 0\<rparr>)
             = (Inl (APIError ''Connection error: unreachable''), ())"
    using failing_pages_request [where w = "world fetch_start" and yr = 2020 and off = 0]
    by (simp add: unreachable_def)
  have a: "page_loop failing_pages default_client None False 3 2020 (?mk 2020) 0 fetch_start
     = Some (None, fetch_start\<lparr>world := (),
               logged := logged fetch_start @ [ErrorFetchingYear 2020 unreachable]\<rparr>)"
    using error_containment [where stop_check = None and st = fetch_start and ?st1.0 = fetch_start
        and session_get = failing_pages and ps = "?mk 2020" and off = 0
        and m = "''Connection error: unreachable''" and w' = "()" and self = default_client
        and cb = False and tot = 3 and yr = 2020, THEN conjunct1, THEN mp, OF conjI, OF p r]
    by (simp add: unreachable_def)
  let ?st2 = "fetch_start\<lparr>logged := [EstimatedTotal 3, ProcessingYear 2020,
                                       ErrorFetchingYear 2020 unreachable]\<rparr>"
  have y: "page_loop failing_pages default_client None False 3 2020 (?mk 2020) 0
             (fetch_start\<lparr>logged := logged fetch_start @ [ProcessingYear 2020]\<rparr>)
             = Some (None, ?st2)"
    by (simp add: failing_pages_year fetch_start_def)
  have b: "year_loop failing_pages default_client None False 3 ?mk [2020, 2021] fetch_start
             = year_loop failing_pages default_client None False 3 ?mk [2021] ?st2"
    by (rule error_containment [where stop_check = None and st = fetch_start
          and ?st1.0 = fetch_start and session_get = failing_pages and self = default_client
          and cb = False and tot = 3 and yr = 2020 and mk = ?mk and ?st2.0 = ?st2
          and yrs = "[2021]",
          THEN conjunct2, THEN conjunct2, THEN conjunct2, THEN conjunct1, THEN mp,
          OF conjI, OF p y])
  have c: "\<not> is_api_error rate_limit"
    by (rule error_containment [where session_get = rate_limited_pages and ?w0.0 = "()"
          and tk = 1035566 and bs = specimens and hc = True and cn = None and tot = 3
          and ?w1.0 = "()" and self = default_client and now = 2026 and ?y0.0 = 2020
          and ?y1.0 = "Some 2021" and cb = False and stop_check = None,
          THEN conjunct2, THEN conjunct2, THEN conjunct2, THEN conjunct2, THEN conjunct1,
          THEN spec, THEN spec, THEN mp, OF conjI, OF rate_limited_count rate_limited_run])
  have ps: "0 < page_size default_client"
    by (simp add: default_client_def GBIFClient_init_def DEFAULT_PAGE_SIZE_def)
  have d: "\<exists>res. iter_occurrences_by_year failing_pages default_client () 2026 1035566
                  2020 (Some 2021) specimens True None False None = Some res"
    by (rule error_containment [where session_get = failing_pages and self = default_client,
          THEN conjunct2, THEN conjunct2, THEN conjunct2, THEN conjunct2, THEN conjunct2,
          THEN conjunct1, THEN mp, OF ps])
  let ?st3 = "fetch_start\<lparr>logged := [EstimatedTotal 3, ProcessingYear 2020,
                                       ErrorFetchingYear 2020 unreachable,
                                       ProcessingYear 2021]\<rparr>"
  have p3: "poll None ?st3 = (False, ?st3)" by simp
  have r3: "make_request first_year_fails (world ?st3) OCCURRENCE_SEARCH_ENDPOINT
              ((?mk 2021)\<lparr>p_offset := Some 0\<rparr>) = (Inr second_page, ())"
    by (simp add: first_year_fails_requests)
  have one: "[scenario_r3] \<noteq> []" "distinct (map key [scenario_r3])" by simp_all
  have h3: "poll None ?st3 = (False, ?st3) \<and>
            make_request first_year_fails (world ?st3) OCCURRENCE_SEARCH_ENDPOINT
              ((?mk 2021)\<lparr>p_offset := Some 0\<rparr>) = (Inr second_page, ()) \<and>
            j_results second_page = Some [scenario_r3] \<and> [scenario_r3] \<noteq> [] \<and>
            (get_or (j_endOfRecords second_page) False
             \<or> int (length [scenario_r3]) < page_size default_client)"
    using p3 r3 second_page_fields by simp
  have e: "\<exists>st. page_loop first_year_fails default_client None False 3 2021 (?mk 2021) 0 ?st3
                  = Some (None, st) \<and> yielded st = [scenario_r3]"
    using error_containment [where stop_check = None and st = ?st3 and ?st1.0 = ?st3
        and session_get = first_year_fails and ps = "?mk 2021" and off = 0
        and data = second_page and w' = "()" and rs = "[scenario_r3]"
        and self = default_client and cb = False and tot = 3 and yr = 2021,
        THEN conjunct2, THEN conjunct2, THEN conjunct2, THEN conjunct2, THEN conjunct2,
        THEN conjunct2, THEN conjunct1, THEN mp, OF h3]
    by (auto simp add: fetch_start_def)
  have h4: "count_occurrences first_year_fails () 1035566 specimens True None None
              = (Inr 3, ()) \<and>
            make_request first_year_fails () OCCURRENCE_SEARCH_ENDPOINT
              ((?mk 2020)\<lparr>p_offset := Some 0\<rparr>)
              = (Inl (APIError ''Connection error: unreachable''), ()) \<and>
            make_request first_year_fails () OCCURRENCE_SEARCH_ENDPOINT
              ((?mk (2020 + 1))\<lparr>p_offset := Some 0\<rparr>) = (Inr second_page, ()) \<and>
            j_results second_page = Some [scenario_r3] \<and> [scenario_r3] \<noteq> [] \<and>
            (get_or (j_endOfRecords second_page) False
             \<or> int (length [scenario_r3]) < page_size default_client) \<and>
            distinct (map key [scenario_r3])"
    using first_year_fails_requests second_page_fields by simp
  have f: "\<exists>st. iter_occurrences_by_year first_year_fails default_client () 2026 1035566
            2020 (Some 2021) specimens True None False None = Some (None, st) \<and>
          yielded st = [scenario_r3] \<and>
          logged st = [EstimatedTotal 3, ProcessingYear 2020,
                       ErrorFetchingYear 2020 unreachable, ProcessingYear 2021,
                       DownloadedUnique 1]"
    using error_containment [where session_get = first_year_fails and ?w0.0 = "()"
        and tk = 1035566 and bs = specimens and hc = True and cn = None and tot = 3
        and ?w1.0 = "()" and ?w2.0 = "()" and ?w3.0 = "()" and self = default_client
        and now = 2026 and y = 2020 and cb = False and data = second_page
        and m = "''Connection error: unreachable''" and rs = "[scenario_r3]",
        THEN conjunct2, THEN conjunct2, THEN conjunct2, THEN conjunct2, THEN conjunct2,
        THEN conjunct2, THEN conjunct2, THEN conjunct1, THEN mp, OF h4]
    by (auto simp add: unreachable_def)
  have h5: "count_occurrences later_years_fail () 1035566 specimens True None None
              = (Inr 3, ()) \<and>
            make_request later_years_fail () OCCURRENCE_SEARCH_ENDPOINT
              ((?mk 2020)\<lparr>p_offset := Some 0\<rparr>) = (Inr second_page, ()) \<and>
            make_request later_years_fail () OCCURRENCE_SEARCH_ENDPOINT
              ((?mk (2020 + 1))\<lparr>p_offset := Some 0\<rparr>)
              = (Inl (APIError ''Connection error: unreachable''), ()) \<and>
            j_results second_page = Some [scenario_r3] \<and> [scenario_r3] \<noteq> [] \<and>
            (get_or (j_endOfRecords second_page) False
             \<or> int (length [scenario_r3]) < page_size default_client) \<and>
            distinct (map key [scenario_r3])"
    using later_years_fail_requests second_page_fields by simp
  have g: "\<exists>st. iter_occurrences_by_year later_years_fail default_client () 2026 1035566
            2020 (Some 2021) specimens True None False None = Some (None, st) \<and>
          yielded st = [scenario_r3] \<and>
          logged st = [EstimatedTotal 3, ProcessingYear 2020, ProcessingYear 2021,
                       ErrorFetchingYear 2021 unreachable, DownloadedUnique 1]"
    using error_containment [where session_get = later_years_fail and ?w0.0 = "()"
        and tk = 1035566 and bs = specimens and hc = True and cn = None and tot = 3
        and ?w1.0 = "()" and ?w2.0 = "()" and ?w3.0 = "()" and self = default_client
        and now = 2026 and y = 2020 and cb = False and data = second_page
        and m = "''Connection error: unreachable''" and rs = "[scenario_r3]",
        THEN conjunct2, THEN conjunct2, THEN conjunct2, THEN conjunct2, THEN conjunct2,
        THEN conjunct2, THEN conjunct2, THEN conjunct2, THEN mp, OF h5]
    by (auto simp add: unreachable_def)
  from a b c d e f g show ?thesis by blast
qed

section \<open>Properties of the taxon resolution\<close>

lemma str_in_prefix: "str_in n (n @ ys)"
proof (cases "n @ ys")
  case Nil
  then show ?thesis by simp
next
  case (Cons a l)
  have "take (length n) (n @ ys) = n" by simp
  then have "take (length n) (a # l) = n" using Cons by simp
  then show ?thesis using Cons by simp
qed

lemma str_in_append: "str_in n (xs @ n @ ys)"
  by (induction xs) (simp_all add: str_in_prefix)

lemma str_in_middle: "str_in (pre @ r) (q @ pre @ r @ rest)"
  using str_in_append [of "pre @ r" q rest] by simp

lemma match_taxon_none:
  assumes "make_request session_get w SPECIES_MATCH_ENDPOINT
             (taxon_params name kingdom_name class_name) = (Inr data, w')"
    and "get_or (j_matchType data) ''NONE'' = ''NONE''"
  shows "fst (match_taxon py session_get w name rnk kingdom_name class_name strict)
           = Inl (TaxonNotFoundError (''Taxon '' @ quoted name @ '' not found in GBIF.''))"
  using assms by (simp add: match_taxon_def TaxonMatch_from_api_response_def)

lemma match_taxon_rank:
  assumes "make_request session_get w SPECIES_MATCH_ENDPOINT
             (taxon_params name kingdom_name class_name) = (Inr data, w')"
    and "get_or (j_matchType data) ''NONE'' \<noteq> ''NONE''"
    and "truthy_str rnk" and "get_or (j_rank data) '''' \<noteq> or_empty rnk"
  shows "fst (match_taxon py session_get w name rnk kingdom_name class_name True)
           = Inl (TaxonNotFoundError
                    (quoted name @ '' matched as '' @ get_or (j_rank data) '''' @ '' (''
                       @ get_or (j_canonicalName data) '''' @ ''), but expected ''
                       @ or_empty rnk @ ''. Please check the spelling.''))"
  using assms by (simp add: match_taxon_def TaxonMatch_from_api_response_def)

lemma match_taxon_name:
  assumes "make_request session_get w SPECIES_MATCH_ENDPOINT
             (taxon_params name kingdom_name class_name) = (Inr data, w')"
    and "get_or (j_matchType data) ''NONE'' \<noteq> ''NONE''"
    and "truthy_str rnk"
    and "str_lower py (get_or (j_canonicalName data) '''') \<noteq> str_lower py name"
  shows "\<exists>msg. fst (match_taxon py session_get w name rnk kingdom_name class_name True)
                 = Inl (TaxonNotFoundError msg)"
  using assms by (simp add: match_taxon_def TaxonMatch_from_api_response_def Let_def)

lemma match_taxon_lenient:
  assumes "make_request session_get w SPECIES_MATCH_ENDPOINT
             (taxon_params name kingdom_name class_name) = (Inr data, w')"
    and "get_or (j_matchType data) ''NONE'' \<noteq> ''NONE''"
  shows "fst (match_taxon py session_get w name rnk kingdom_name class_name False)
           = Inr (TaxonMatch_from_api_response data)"
  using assms by (simp add: match_taxon_def TaxonMatch_from_api_response_def)

lemma match_taxon_accepted:
  assumes "make_request session_get w SPECIES_MATCH_ENDPOINT
             (taxon_params name kingdom_name class_name) = (Inr data, w')"
    and "get_or (j_matchType data) ''NONE'' \<noteq> ''NONE''"
    and "get_or (j_rank data) '''' = or_empty rnk"
    and "str_lower py (get_or (j_canonicalName data) '''') = str_lower py name"
  shows "fst (match_taxon py session_get w name rnk kingdom_name class_name strict)
           = Inr (TaxonMatch_from_api_response data)"
  using assms by (simp add: match_taxon_def TaxonMatch_from_api_response_def)

text \<open>
  C7. When the request of \<open>match_taxon\<close> is answered: a response whose match type is
  NONE (or absent) raises \<open>TaxonNotFoundError\<close>, in strict and in non-strict mode. For
  any other response, under strict mode with an expected rank, a returned rank that
  differs from the expected one raises \<open>TaxonNotFoundError\<close> with a message that
  contains "matched as" followed by the rank actually returned, and a returned canonical
  name that differs from the requested name after \<open>str.lower\<close> of both (whatever the
  lower-casing of the runtime is: \<open>py\<close> is arbitrary) raises \<open>TaxonNotFoundError\<close>;
  non-strict mode skips both validations and returns the match. The name check is exactly
  this comparison: with the expected rank returned and the two names equal after
  \<open>str.lower\<close>, the match is returned in strict mode too.
\<close>

theorem taxon_resolution:
  "make_request session_get w SPECIES_MATCH_ENDPOINT (taxon_params name kingdom_name class_name)
     = (Inr data, w') \<longrightarrow>
   (get_or (j_matchType data) ''NONE'' = ''NONE'' \<longrightarrow>
      fst (match_taxon py session_get w name rnk kingdom_name class_name strict)
        = Inl (TaxonNotFoundError (''Taxon '' @ quoted name @ '' not found in GBIF.''))) \<and>
   (get_or (j_matchType data) ''NONE'' \<noteq> ''NONE'' \<and> truthy_str rnk \<and>
    get_or (j_rank data) '''' \<noteq> or_empty rnk \<longrightarrow>
      (\<exists>msg. fst (match_taxon py session_get w name rnk kingdom_name class_name True)
                = Inl (TaxonNotFoundError msg) \<and>
             str_in ('' matched as '' @ get_or (j_rank data) '''') msg)) \<and>
   (get_or (j_matchType data) ''NONE'' \<noteq> ''NONE'' \<and> truthy_str rnk \<and>
    str_lower py (get_or (j_canonicalName data) '''') \<noteq> str_lower py name \<longrightarrow>
      (\<exists>msg. fst (match_taxon py session_get w name rnk kingdom_name class_name True)
                = Inl (TaxonNotFoundError msg))) \<and>
   (get_or (j_matchType data) ''NONE'' \<noteq> ''NONE'' \<longrightarrow>
      fst (match_taxon py session_get w name rnk kingdom_name class_name False)
        = Inr (TaxonMatch_from_api_response data)) \<and>
   (get_or (j_matchType data) ''NONE'' \<noteq> ''NONE'' \<and> truthy_str rnk \<and>
    get_or (j_rank data) '''' = or_empty rnk \<and>
    str_lower py (get_or (j_canonicalName data) '''') = str_lower py name \<longrightarrow>
      fst (match_taxon py session_get w name rnk kingdom_name class_name True)
        = Inr (TaxonMatch_from_api_response data))"
proof (intro impI conjI)
  assume r: "make_request session_get w SPECIES_MATCH_ENDPOINT
               (taxon_params name kingdom_name class_name) = (Inr data, w')"
  { assume "get_or (j_matchType data) ''NONE'' = ''NONE''"
    then show "fst (match_taxon py session_get w name rnk kingdom_name class_name strict)
        = Inl (TaxonNotFoundError (''Taxon '' @ quoted name @ '' not found in GBIF.''))"
      by (rule match_taxon_none [OF r]) }
  { assume h: "get_or (j_matchType data) ''NONE'' \<noteq> ''NONE'' \<and> truthy_str rnk \<and>
               get_or (j_rank data) '''' \<noteq> or_empty rnk"
    let ?msg = "quoted name @ '' matched as '' @ get_or (j_rank data) '''' @ '' (''
                       @ get_or (j_canonicalName data) '''' @ ''), but expected ''
                       @ or_empty rnk @ ''. Please check the spelling.''"
    have "fst (match_taxon py session_get w name rnk kingdom_name class_name True)
            = Inl (TaxonNotFoundError ?msg)"
      using h by (intro match_taxon_rank [OF r]) simp_all
    moreover have "str_in ('' matched as '' @ get_or (j_rank data) '''') ?msg"
      by (rule str_in_middle)
    ultimately show "\<exists>msg. fst (match_taxon py session_get w name rnk kingdom_name class_name
                               True) = Inl (TaxonNotFoundError msg) \<and>
             str_in ('' matched as '' @ get_or (j_rank data) '''') msg"
      by blast }
  { assume h: "get_or (j_matchType data) ''NONE'' \<noteq> ''NONE'' \<and> truthy_str rnk \<and>
               str_lower py (get_or (j_canonicalName data) '''') \<noteq> str_lower py name"
    then show "\<exists>msg. fst (match_taxon py session_get w name rnk kingdom_name class_name True)
                = Inl (TaxonNotFoundError msg)"
      by (intro match_taxon_name [OF r]) simp_all }
  { assume "get_or (j_matchType data) ''NONE'' \<noteq> ''NONE''"
    then show "fst (match_taxon py session_get w name rnk kingdom_name class_name False)
        = Inr (TaxonMatch_from_api_response data)"
      by (rule match_taxon_lenient [OF r]) }
  { assume h: "get_or (j_matchType data) ''NONE'' \<noteq> ''NONE'' \<and> truthy_str rnk \<and>
               get_or (j_rank data) '''' = or_empty rnk \<and>
               str_lower py (get_or (j_canonicalName data) '''') = str_lower py name"
    then show "fst (match_taxon py session_get w name rnk kingdom_name class_name True)
        = Inr (TaxonMatch_from_api_response data)"
      by (intro match_taxon_accepted [OF r]) simp_all }
qed

lemma mock_single:
  "make_request mock_session [HttpResponse 200 body] endpoint ps = (Inr body, [])"
  by (simp add: make_request_def mock_session_def)

theorem taxon_resolution_witness:
  "fst (match_taxon ascii_methods mock_session [HttpResponse 200 none_json] ''InvalidGenus''
          None ''Animalia'' None True)
     = Inl (TaxonNotFoundError (''Taxon '' @ quoted ''InvalidGenus'' @ '' not found in GBIF.'')) \<and>
   (\<exists>msg. fst (match_taxon ascii_methods mock_session [HttpResponse 200 insecta_json]
                 ''InvalidGenusXYZ'' (Some ''GENUS'') ''Animalia'' None True)
             = Inl (TaxonNotFoundError msg) \<and>
          str_in '' matched as CLASS'' msg) \<and>
   (\<exists>msg. fst (match_taxon ascii_methods mock_session [HttpResponse 200 nebria_json] ''Nebra''
                 (Some ''GENUS'') ''Animalia'' None True) = Inl (TaxonNotFoundError msg)) \<and>
   fst (match_taxon ascii_methods mock_session [HttpResponse 200 nebria_json] ''Nebra''
          (Some ''GENUS'') ''Animalia'' None False)
     = Inr (TaxonMatch_from_api_response nebria_json) \<and>
   fst (match_taxon ascii_methods mock_session [HttpResponse 200 nebria_json] ''NEBRIA''
          (Some ''GENUS'') ''Animalia'' None True)
     = Inr (TaxonMatch_from_api_response nebria_json)"
proof -
  let ?py = ascii_methods
  have n: "get_or (j_matchType none_json) ''NONE'' = ''NONE''"
    by (simp add: none_json_def json_object_def get_or_def)
  have i: "get_or (j_matchType insecta_json) ''NONE'' \<noteq> ''NONE'' \<and> truthy_str (Some ''GENUS'') \<and>
           get_or (j_rank insecta_json) [] \<noteq> or_empty (Some ''GENUS'')"
    "get_or (j_rank insecta_json) [] = ''CLASS''"
    by (simp_all add: insecta_json_def json_object_def get_or_def truthy_str_def or_empty_def)
  have f: "get_or (j_matchType nebria_json) ''NONE'' \<noteq> ''NONE'' \<and> truthy_str (Some ''GENUS'') \<and>
           str_lower ?py (get_or (j_canonicalName nebria_json) []) \<noteq> str_lower ?py ''Nebra''"
    "get_or (j_matchType nebria_json) ''NONE'' \<noteq> ''NONE''"
    by (simp_all add: nebria_json_def json_object_def get_or_def truthy_str_def
          ascii_methods_def ascii_lower_char_def)
  have g: "get_or (j_matchType nebria_json) ''NONE'' \<noteq> ''NONE'' \<and> truthy_str (Some ''GENUS'') \<and>
           get_or (j_rank nebria_json) [] = or_empty (Some ''GENUS'') \<and>
           str_lower ?py (get_or (j_canonicalName nebria_json) []) = str_lower ?py ''NEBRIA''"
    by (simp add: nebria_json_def json_object_def get_or_def truthy_str_def or_empty_def
          ascii_methods_def ascii_lower_char_def)
  have a: "fst (match_taxon ?py mock_session [HttpResponse 200 none_json] ''InvalidGenus'' None
          ''Animalia'' None True)
     = Inl (TaxonNotFoundError (''Taxon '' @ quoted ''InvalidGenus'' @ '' not found in GBIF.''))"
    by (rule taxon_resolution [where session_get = mock_session and data = none_json
          and w' = "[]" and strict = True, THEN mp, OF mock_single, THEN conjunct1, THEN mp, OF n])
  have b: "\<exists>msg. fst (match_taxon ?py mock_session [HttpResponse 200 insecta_json]
                 ''InvalidGenusXYZ'' (Some ''GENUS'') ''Animalia'' None True)
             = Inl (TaxonNotFoundError msg) \<and>
          str_in '' matched as CLASS'' msg"
    using taxon_resolution [where session_get = mock_session and data = insecta_json
          and w' = "[]" and rnk = "Some ''GENUS''" and name = "''InvalidGenusXYZ''"
          and kingdom_name = "''Animalia''" and class_name = None and py = ?py,
          THEN mp, OF mock_single, THEN conjunct2, THEN conjunct1, THEN mp, OF i(1)]
    by (simp add: i(2))
  have c: "\<exists>msg. fst (match_taxon ?py mock_session [HttpResponse 200 nebria_json] ''Nebra''
                 (Some ''GENUS'') ''Animalia'' None True) = Inl (TaxonNotFoundError msg)"
    by (rule taxon_resolution [where session_get = mock_session and data = nebria_json
          and w' = "[]", THEN mp, OF mock_single, THEN conjunct2, THEN conjunct2,
          THEN conjunct1, THEN mp, OF f(1)])
  have d: "fst (match_taxon ?py mock_session [HttpResponse 200 nebria_json] ''Nebra''
          (Some ''GENUS'') ''Animalia'' None False)
     = Inr (TaxonMatch_from_api_response nebria_json)"
    by (rule taxon_resolution [where session_get = mock_session and data = nebria_json
          and w' = "[]", THEN mp, OF mock_single, THEN conjunct2, THEN conjunct2,
          THEN conjunct2, THEN conjunct1, THEN mp, OF f(2)])
  have e: "fst (match_taxon ?py mock_session [HttpResponse 200 nebria_json] ''NEBRIA''
          (Some ''GENUS'') ''Animalia'' None True)
     = Inr (TaxonMatch_from_api_response nebria_json)"
    by (rule taxon_resolution [where session_get = mock_session and data = nebria_json
          and w' = "[]", THEN mp, OF mock_single, THEN conjunct2, THEN conjunct2,
          THEN conjunct2, THEN conjunct2, THEN mp, OF g])
  from a b c d e show ?thesis by blast
qed

end
